theory Spec2Isabelle
  imports Main "HOL-Library.Char_ord" "HOL-Library.List_Lexorder"
begin

section \<open>The T.LY client: data model\<close>

text \<open>
  The library is one file, \<^verbatim>\<open>client.go\<close>: a \<^verbatim>\<open>Client\<close> struct, the internal helper
  \<^verbatim>\<open>doRequest\<close> and eighteen public methods that call it. Go strings are byte
  sequences, so they are \<^typ>\<open>string\<close> here; Go's \<^verbatim>\<open>int\<close> values are only
  compared and printed, never computed with, so they are \<^typ>\<open>int\<close>.
\<close>

subsection \<open>Errors\<close>

text \<open>
  A Go \<^verbatim>\<open>error\<close> is a value with one method, \<^verbatim>\<open>Error() string\<close>. The nil error is
  \<open>None\<close> of type \<open>error option\<close>.
\<close>

datatype error = errorString string

fun Error :: "error \<Rightarrow> string" where
  "Error (errorString s) = s"

text \<open>\<^verbatim>\<open>fmt.Errorf("API error: %s", string(data))\<close>, the only error the file builds itself.\<close>

definition fmt_Errorf_API_error :: "string \<Rightarrow> error" where
  "fmt_Errorf_API_error data = errorString (''API error: '' @ data)"

subsection \<open>Requests, responses and the client\<close>

text \<open>
  A response body is an \<^verbatim>\<open>io.ReadCloser\<close>: a stream that delivers some bytes and then
  ends, either at end of file or with a read error. \<^verbatim>\<open>ioutil.ReadAll\<close> returns the
  bytes it read up to that point together with the error (nil at end of file).
\<close>

record ReadCloser =
  delivered :: string
  read_error :: "error option"

definition ioutil_ReadAll :: "ReadCloser \<Rightarrow> string \<times> error option" where
  "ioutil_ReadAll r = (delivered r, read_error r)"

text \<open>
  The part of \<^verbatim>\<open>http.Request\<close> that \<^verbatim>\<open>doRequest\<close> fills in: the method, the url string
  the request was built from, the header map (\<^verbatim>\<open>map[string][]string\<close>) and the bytes
  of the body buffer.
\<close>

record Request =
  Method :: string
  URL :: string
  Header :: "string \<rightharpoonup> string list"
  ReqBody :: string

record Response =
  StatusCode :: int
  Body :: ReadCloser

text \<open>\<^verbatim>\<open>Header.Set(key, value)\<close> replaces whatever the key held by the one value.\<close>

definition Header_Set :: "string \<Rightarrow> string \<Rightarrow> Request \<Rightarrow> Request" where
  "Header_Set k v req = req\<lparr>Header := (Header req)(k \<mapsto> [v])\<rparr>"

text \<open>
  The \<^verbatim>\<open>Client\<close> struct. Its third field is the \<^verbatim>\<open>*http.Client\<close>; what the code does
  with it is call \<^verbatim>\<open>Do\<close>, so the handle is modelled by that method: it takes the request
  and gives back a transport error or a response. The receiver and the handle are taken
  to be non-nil, as \<^verbatim>\<open>NewClient\<close> makes them; with a nil one a call panics at its first
  use, before anything is sent.
\<close>

record Client =
  APIKey :: string
  BaseURL :: string
  Client :: "Request \<Rightarrow> error + Response"

text \<open>
  \<^verbatim>\<open>NewClient\<close>; the argument \<open>http_Client\<close> is the freshly allocated
  \<^verbatim>\<open>&http.Client{}\<close>.
\<close>

definition NewClient :: "(Request \<Rightarrow> error + Response) \<Rightarrow> string \<Rightarrow> Client" where
  "NewClient http_Client apiKey =
     \<lparr>APIKey = apiKey, BaseURL = ''https://api.t.ly'', Client = http_Client\<rparr>"

subsection \<open>The standard library as parameters\<close>

text \<open>
  \<^verbatim>\<open>doRequest\<close> calls three library functions whose results depend on the payload and
  result types: \<^verbatim>\<open>json.Marshal\<close> on the payload (of type \<open>'b\<close>), the validity check
  of \<^verbatim>\<open>http.NewRequest\<close> on the method and the url, and \<^verbatim>\<open>Decode\<close> of a
  \<^verbatim>\<open>json.Decoder\<close> reading the response body into the variable the result pointer
  refers to (of type \<open>'r\<close>). \<^verbatim>\<open>Decode\<close> gets the variable's old value and
  returns its error together with the variable's new value.
\<close>

record ('b, 'r) lib =
  json_Marshal :: "'b \<Rightarrow> error + string"
  NewRequest_error :: "string \<Rightarrow> string \<Rightarrow> error option"
  json_Decode :: "ReadCloser \<Rightarrow> 'r \<Rightarrow> error option \<times> 'r"

text \<open>
  \<^verbatim>\<open>http.NewRequest(method, url, body)\<close>: an error when the method or the url is
  rejected, else a request with an empty header map. An empty method means GET.
\<close>

definition http_NewRequest ::
  "('b, 'r) lib \<Rightarrow> string \<Rightarrow> string \<Rightarrow> string \<Rightarrow> error + Request" where
  "http_NewRequest L method url buf =
     (case NewRequest_error L method url of
        Some e \<Rightarrow> Inl e
      | None \<Rightarrow>
          Inr \<lparr>Method = (if method = [] then ''GET'' else method), URL = url,
               Header = Map.empty, ReqBody = buf\<rparr>)"

section \<open>The dispatcher\<close>

text \<open>
  What a call leaves behind: the value it returns (\<open>ret\<close>), its error, the
  requests it handed to the transport, in order, and the client after the call. For
  \<^verbatim>\<open>doRequest\<close>, \<open>ret\<close> is the variable behind the result pointer after the call
  (\<^term>\<open>None\<close> when the pointer was nil).
\<close>

record 'a outcome =
  ret :: 'a
  err :: "error option"
  sent :: "Request list"
  self :: Client

text \<open>Lines 29 to 32: the url.\<close>

definition doRequest_url :: "Client \<Rightarrow> string \<Rightarrow> string \<Rightarrow> string" where
  "doRequest_url c path query =
     (let url = BaseURL c @ path
      in if query \<noteq> [] then url @ ''?'' @ query else url)"

text \<open>Lines 33 to 42: the body buffer.\<close>

definition doRequest_buf :: "('b, 'r) lib \<Rightarrow> 'b option \<Rightarrow> error + string" where
  "doRequest_buf L body =
     (case body of
        Some b \<Rightarrow> (case json_Marshal L b of Inl e \<Rightarrow> Inl e | Inr data \<Rightarrow> Inr data)
      | None \<Rightarrow> Inr [])"

text \<open>Lines 47 to 49: the three headers.\<close>

definition doRequest_headers :: "Client \<Rightarrow> Request \<Rightarrow> Request" where
  "doRequest_headers c req =
     Header_Set ''Accept'' ''application/json''
       (Header_Set ''Content-Type'' ''application/json''
         (Header_Set ''Authorization'' (''Bearer '' @ APIKey c) req))"

text \<open>
  Lines 55 to 62: what is done with a response. The deferred \<^verbatim>\<open>Close\<close> of the body runs
  when the result is already fixed and is left out.
\<close>

definition doRequest_response ::
  "('b, 'r) lib \<Rightarrow> Response \<Rightarrow> 'r option \<Rightarrow> error option \<times> 'r option" where
  "doRequest_response L resp result =
     (if StatusCode resp < 200 \<or> StatusCode resp \<ge> 300 then
        (case ioutil_ReadAll (Body resp) of
           (data, _) \<Rightarrow> (Some (fmt_Errorf_API_error data), result))
      else
        (case result of
           Some v \<Rightarrow> (case json_Decode L (Body resp) v of (e, v') \<Rightarrow> (e, Some v'))
         | None \<Rightarrow> (None, None)))"

definition doRequest ::
  "('b, 'r) lib \<Rightarrow> Client \<Rightarrow> string \<Rightarrow> string \<Rightarrow> string \<Rightarrow> 'b option \<Rightarrow> 'r option
     \<Rightarrow> 'r option outcome" where
  "doRequest L c method path query body result =
     (let url = doRequest_url c path query in
      case doRequest_buf L body of
        Inl e \<Rightarrow> \<lparr>ret = result, err = Some e, sent = [], self = c\<rparr>
      | Inr buf \<Rightarrow>
          (case http_NewRequest L method url buf of
             Inl e \<Rightarrow> \<lparr>ret = result, err = Some e, sent = [], self = c\<rparr>
           | Inr req0 \<Rightarrow>
               (let req = doRequest_headers c req0 in
                case Client c req of
                  Inl e \<Rightarrow> \<lparr>ret = result, err = Some e, sent = [req], self = c\<rparr>
                | Inr resp \<Rightarrow>
                    (case doRequest_response L resp result of
                       (e, result') \<Rightarrow>
                         \<lparr>ret = result', err = e, sent = [req], self = c\<rparr>))))"

section \<open>The resources\<close>

text \<open>
  The structs of the file, as records. A record field is a constant of the whole theory,
  so every field carries the name of its struct in front of its own.

  A field of type \<^verbatim>\<open>interface{}\<close> holds whatever the decoder found: null, a boolean, a
  number (kept as its literal), a string, an array or an object.
\<close>

datatype json =
  JNull
| JBool bool
| JNumber string
| JString string
| JArray "json list"
| JObject "(string \<times> json) list"

record Pixel =
  Pixel_ID :: int
  Pixel_Name :: string
  Pixel_PixelID :: string
  Pixel_PixelType :: string
  Pixel_CreatedAt :: string
  Pixel_UpdatedAt :: string

record PixelCreateRequest =
  PixelCreateRequest_Name :: string
  PixelCreateRequest_PixelID :: string
  PixelCreateRequest_PixelType :: string

record PixelUpdateRequest =
  PixelUpdateRequest_ID :: int
  PixelUpdateRequest_Name :: string
  PixelUpdateRequest_PixelID :: string
  PixelUpdateRequest_PixelType :: string

record ShortLink =
  ShortLink_ShortURL :: string
  ShortLink_Description :: string
  ShortLink_LongURL :: string
  ShortLink_Domain :: string
  ShortLink_ShortID :: string
  ShortLink_ExpireAtViews :: json
  ShortLink_ExpireAtDatetime :: json
  ShortLink_PublicStats :: bool
  ShortLink_CreatedAt :: string
  ShortLink_UpdatedAt :: string
  ShortLink_Meta :: json

text \<open>A field that is a pointer, a slice or a map is an option: nil is \<^term>\<open>None\<close>.\<close>

record ShortLinkCreateRequest =
  ShortLinkCreateRequest_LongURL :: string
  ShortLinkCreateRequest_ShortID :: "string option"
  ShortLinkCreateRequest_Domain :: string
  ShortLinkCreateRequest_ExpireAtDatetime :: "string option"
  ShortLinkCreateRequest_ExpireAtViews :: "int option"
  ShortLinkCreateRequest_Description :: "string option"
  ShortLinkCreateRequest_PublicStats :: "bool option"
  ShortLinkCreateRequest_Password :: "string option"
  ShortLinkCreateRequest_Tags :: "int list option"
  ShortLinkCreateRequest_Pixels :: "int list option"
  ShortLinkCreateRequest_Meta :: json

record ShortLinkUpdateRequest =
  ShortLinkUpdateRequest_ShortURL :: string
  ShortLinkUpdateRequest_ShortID :: "string option"
  ShortLinkUpdateRequest_LongURL :: string
  ShortLinkUpdateRequest_ExpireAtDatetime :: "string option"
  ShortLinkUpdateRequest_ExpireAtViews :: "int option"
  ShortLinkUpdateRequest_Description :: "string option"
  ShortLinkUpdateRequest_PublicStats :: "bool option"
  ShortLinkUpdateRequest_Password :: "string option"
  ShortLinkUpdateRequest_Tags :: "int list option"
  ShortLinkUpdateRequest_Pixels :: "int list option"
  ShortLinkUpdateRequest_Meta :: json

record ExpandRequest =
  ExpandRequest_ShortURL :: string
  ExpandRequest_Password :: "string option"

record ExpandResponse =
  ExpandResponse_LongURL :: string
  ExpandResponse_Expired :: bool

record BulkShortenRequest =
  BulkShortenRequest_Domain :: string
  BulkShortenRequest_Links :: "string list option"
  BulkShortenRequest_Tags :: "int list option"
  BulkShortenRequest_Pixels :: "int list option"

record Stats =
  Stats_Clicks :: int
  Stats_UniqueClicks :: int
  Stats_Browsers :: "json list option"
  Stats_Countries :: "json list option"
  Stats_Referrers :: "json list option"
  Stats_Platforms :: "json list option"
  Stats_DailyClicks :: "json list option"
  Stats_Data :: "(string \<times> json) list option"

record Tag =
  Tag_ID :: int
  Tag_Tag :: string
  Tag_CreatedAt :: string
  Tag_UpdatedAt :: string

text \<open>The zero values that \<^verbatim>\<open>var x T\<close> declares.\<close>

definition Pixel_zero :: Pixel where
  "Pixel_zero =
     \<lparr>Pixel_ID = 0, Pixel_Name = [], Pixel_PixelID = [], Pixel_PixelType = [],
      Pixel_CreatedAt = [], Pixel_UpdatedAt = []\<rparr>"

definition ShortLink_zero :: ShortLink where
  "ShortLink_zero =
     \<lparr>ShortLink_ShortURL = [], ShortLink_Description = [], ShortLink_LongURL = [],
      ShortLink_Domain = [], ShortLink_ShortID = [], ShortLink_ExpireAtViews = JNull,
      ShortLink_ExpireAtDatetime = JNull, ShortLink_PublicStats = False,
      ShortLink_CreatedAt = [], ShortLink_UpdatedAt = [], ShortLink_Meta = JNull\<rparr>"

definition ExpandResponse_zero :: ExpandResponse where
  "ExpandResponse_zero = \<lparr>ExpandResponse_LongURL = [], ExpandResponse_Expired = False\<rparr>"

definition Stats_zero :: Stats where
  "Stats_zero =
     \<lparr>Stats_Clicks = 0, Stats_UniqueClicks = 0, Stats_Browsers = None,
      Stats_Countries = None, Stats_Referrers = None, Stats_Platforms = None,
      Stats_DailyClicks = None, Stats_Data = None\<rparr>"

definition Tag_zero :: Tag where
  "Tag_zero = \<lparr>Tag_ID = 0, Tag_Tag = [], Tag_CreatedAt = [], Tag_UpdatedAt = []\<rparr>"

section \<open>The public operations\<close>

text \<open>\<^verbatim>\<open>%d\<close> of \<^verbatim>\<open>fmt.Sprintf\<close>: the decimal digits, after a minus sign when negative.\<close>

fun decimal :: "nat \<Rightarrow> string" where
  "decimal n =
     (if n < 10 then [char_of (48 + n)]
      else decimal (n div 10) @ [char_of (48 + n mod 10)])"

definition Sprintf_d :: "int \<Rightarrow> string" where
  "Sprintf_d i = (if i < 0 then CHR ''-'' # decimal (nat (- i)) else decimal (nat i))"

text \<open>
  A method declares a variable, passes its address to \<^verbatim>\<open>doRequest\<close> and reads it
  afterwards: the variable then holds what the call left behind the pointer.
\<close>

fun after_call :: "'r \<Rightarrow> 'r option \<Rightarrow> 'r" where
  "after_call v (Some v') = v'"
| "after_call v None = v"

subsection \<open>Pixel management\<close>

definition CreatePixel ::
  "(PixelCreateRequest, Pixel) lib \<Rightarrow> Client \<Rightarrow> PixelCreateRequest \<Rightarrow> Pixel option outcome" where
  "CreatePixel L c reqData =
     (let pixel = Pixel_zero;
          r = doRequest L c ''POST'' ''/api/v1/link/pixel'' [] (Some reqData) (Some pixel)
      in if err r \<noteq> None
         then \<lparr>ret = None, err = err r, sent = sent r, self = self r\<rparr>
         else \<lparr>ret = Some (after_call pixel (ret r)), err = None, sent = sent r, self = self r\<rparr>)"

definition ListPixels ::
  "('b, Pixel list option) lib \<Rightarrow> Client \<Rightarrow> Pixel list option outcome" where
  "ListPixels L c =
     (let pixels = None;
          r = doRequest L c ''GET'' ''/api/v1/link/pixel'' [] None (Some pixels)
      in if err r \<noteq> None
         then \<lparr>ret = None, err = err r, sent = sent r, self = self r\<rparr>
         else \<lparr>ret = after_call pixels (ret r), err = None, sent = sent r, self = self r\<rparr>)"

definition GetPixel :: "('b, Pixel) lib \<Rightarrow> Client \<Rightarrow> int \<Rightarrow> Pixel option outcome" where
  "GetPixel L c id' =
     (let path = ''/api/v1/link/pixel/'' @ Sprintf_d id';
          pixel = Pixel_zero;
          r = doRequest L c ''GET'' path [] None (Some pixel)
      in if err r \<noteq> None
         then \<lparr>ret = None, err = err r, sent = sent r, self = self r\<rparr>
         else \<lparr>ret = Some (after_call pixel (ret r)), err = None, sent = sent r, self = self r\<rparr>)"

definition UpdatePixel ::
  "(PixelUpdateRequest, Pixel) lib \<Rightarrow> Client \<Rightarrow> PixelUpdateRequest \<Rightarrow> Pixel option outcome" where
  "UpdatePixel L c reqData =
     (let path = ''/api/v1/link/pixel/'' @ Sprintf_d (PixelUpdateRequest_ID reqData);
          pixel = Pixel_zero;
          r = doRequest L c ''PUT'' path [] (Some reqData) (Some pixel)
      in if err r \<noteq> None
         then \<lparr>ret = None, err = err r, sent = sent r, self = self r\<rparr>
         else \<lparr>ret = Some (after_call pixel (ret r)), err = None, sent = sent r, self = self r\<rparr>)"

text \<open>
  The delete methods return \<^verbatim>\<open>doRequest\<close>'s error and nothing else; they pass no
  result pointer, so the result type \<open>'r\<close> of the library is left open.
\<close>

definition DeletePixel :: "('b, 'r) lib \<Rightarrow> Client \<Rightarrow> int \<Rightarrow> unit outcome" where
  "DeletePixel L c id' =
     (let path = ''/api/v1/link/pixel/'' @ Sprintf_d id';
          r = doRequest L c ''DELETE'' path [] None None
      in \<lparr>ret = (), err = err r, sent = sent r, self = self r\<rparr>)"

subsection \<open>Short link management\<close>

definition CreateShortLink ::
  "(ShortLinkCreateRequest, ShortLink) lib \<Rightarrow> Client \<Rightarrow> ShortLinkCreateRequest
     \<Rightarrow> ShortLink option outcome" where
  "CreateShortLink L c reqData =
     (let link = ShortLink_zero;
          r = doRequest L c ''POST'' ''/api/v1/link/shorten'' [] (Some reqData) (Some link)
      in if err r \<noteq> None
         then \<lparr>ret = None, err = err r, sent = sent r, self = self r\<rparr>
         else \<lparr>ret = Some (after_call link (ret r)), err = None, sent = sent r, self = self r\<rparr>)"

definition GetShortLink :: "('b, ShortLink) lib \<Rightarrow> Client \<Rightarrow> string \<Rightarrow> ShortLink option outcome" where
  "GetShortLink L c shortURL =
     (let query = ''short_url='' @ shortURL;
          link = ShortLink_zero;
          r = doRequest L c ''GET'' ''/api/v1/link'' query None (Some link)
      in if err r \<noteq> None
         then \<lparr>ret = None, err = err r, sent = sent r, self = self r\<rparr>
         else \<lparr>ret = Some (after_call link (ret r)), err = None, sent = sent r, self = self r\<rparr>)"

definition UpdateShortLink ::
  "(ShortLinkUpdateRequest, ShortLink) lib \<Rightarrow> Client \<Rightarrow> ShortLinkUpdateRequest
     \<Rightarrow> ShortLink option outcome" where
  "UpdateShortLink L c reqData =
     (let link = ShortLink_zero;
          r = doRequest L c ''PUT'' ''/api/v1/link'' [] (Some reqData) (Some link)
      in if err r \<noteq> None
         then \<lparr>ret = None, err = err r, sent = sent r, self = self r\<rparr>
         else \<lparr>ret = Some (after_call link (ret r)), err = None, sent = sent r, self = self r\<rparr>)"

text \<open>
  A \<^verbatim>\<open>map[string]string\<close> is the list of its entries, one per key: for a map literal the
  entries as written, for a \<^verbatim>\<open>range\<close> loop the entries in the order the loop visits
  them, which the runtime chooses.
\<close>

definition DeleteShortLink ::
  "((string \<times> string) list, 'r) lib \<Rightarrow> Client \<Rightarrow> string \<Rightarrow> unit outcome" where
  "DeleteShortLink L c shortURL =
     (let reqBody = [(''short_url'', shortURL)];
          r = doRequest L c ''DELETE'' ''/api/v1/link'' [] (Some reqBody) None
      in \<lparr>ret = (), err = err r, sent = sent r, self = self r\<rparr>)"

definition ExpandShortLink ::
  "(ExpandRequest, ExpandResponse) lib \<Rightarrow> Client \<Rightarrow> ExpandRequest
     \<Rightarrow> ExpandResponse option outcome" where
  "ExpandShortLink L c reqData =
     (let resp = ExpandResponse_zero;
          r = doRequest L c ''POST'' ''/api/v1/link/expand'' [] (Some reqData) (Some resp)
      in if err r \<noteq> None
         then \<lparr>ret = None, err = err r, sent = sent r, self = self r\<rparr>
         else \<lparr>ret = Some (after_call resp (ret r)), err = None, sent = sent r, self = self r\<rparr>)"

text \<open>
  The loop of \<^verbatim>\<open>ListShortLinks\<close> over the entries of \<^verbatim>\<open>queryParams\<close>; its state is
  the pair of the variables \<^verbatim>\<open>query\<close> and \<^verbatim>\<open>first\<close>.
\<close>

fun ListShortLinks_loop :: "(string \<times> string) list \<Rightarrow> string \<times> bool \<Rightarrow> string \<times> bool" where
  "ListShortLinks_loop [] (query, first) = (query, first)"
| "ListShortLinks_loop ((k, v) # kvs) (query, first) =
     (let query = (if \<not> first then query @ ''&'' else query);
          query = query @ (k @ ''='' @ v)
      in ListShortLinks_loop kvs (query, False))"

definition ListShortLinks ::
  "('b, string) lib \<Rightarrow> Client \<Rightarrow> (string \<times> string) list \<Rightarrow> string outcome" where
  "ListShortLinks L c queryParams =
     (let query = fst (ListShortLinks_loop queryParams ([], True));
          result = [];
          r = doRequest L c ''GET'' ''/api/v1/link/list'' query None (Some result)
      in if err r \<noteq> None
         then \<lparr>ret = [], err = err r, sent = sent r, self = self r\<rparr>
         else \<lparr>ret = after_call result (ret r), err = None, sent = sent r, self = self r\<rparr>)"

definition BulkShortenLinks ::
  "(BulkShortenRequest, string) lib \<Rightarrow> Client \<Rightarrow> BulkShortenRequest \<Rightarrow> string outcome" where
  "BulkShortenLinks L c reqData =
     (let result = [];
          r = doRequest L c ''POST'' ''/api/v1/link/bulk'' [] (Some reqData) (Some result)
      in if err r \<noteq> None
         then \<lparr>ret = [], err = err r, sent = sent r, self = self r\<rparr>
         else \<lparr>ret = after_call result (ret r), err = None, sent = sent r, self = self r\<rparr>)"

subsection \<open>Stats management\<close>

definition GetStats :: "('b, Stats) lib \<Rightarrow> Client \<Rightarrow> string \<Rightarrow> Stats option outcome" where
  "GetStats L c shortURL =
     (let query = ''short_url='' @ shortURL;
          stats = Stats_zero;
          r = doRequest L c ''GET'' ''/api/v1/link/stats'' query None (Some stats)
      in if err r \<noteq> None
         then \<lparr>ret = None, err = err r, sent = sent r, self = self r\<rparr>
         else \<lparr>ret = Some (after_call stats (ret r)), err = None, sent = sent r, self = self r\<rparr>)"

subsection \<open>Tag management\<close>

definition ListTags :: "('b, Tag list option) lib \<Rightarrow> Client \<Rightarrow> Tag list option outcome" where
  "ListTags L c =
     (let tags = None;
          r = doRequest L c ''GET'' ''/api/v1/link/tag'' [] None (Some tags)
      in if err r \<noteq> None
         then \<lparr>ret = None, err = err r, sent = sent r, self = self r\<rparr>
         else \<lparr>ret = after_call tags (ret r), err = None, sent = sent r, self = self r\<rparr>)"

definition CreateTag ::
  "((string \<times> string) list, Tag) lib \<Rightarrow> Client \<Rightarrow> string \<Rightarrow> Tag option outcome" where
  "CreateTag L c tagValue =
     (let reqBody = [(''tag'', tagValue)];
          tag = Tag_zero;
          r = doRequest L c ''POST'' ''/api/v1/link/tag'' [] (Some reqBody) (Some tag)
      in if err r \<noteq> None
         then \<lparr>ret = None, err = err r, sent = sent r, self = self r\<rparr>
         else \<lparr>ret = Some (after_call tag (ret r)), err = None, sent = sent r, self = self r\<rparr>)"

definition GetTag :: "('b, Tag) lib \<Rightarrow> Client \<Rightarrow> int \<Rightarrow> Tag option outcome" where
  "GetTag L c id' =
     (let path = ''/api/v1/link/tag/'' @ Sprintf_d id';
          tag = Tag_zero;
          r = doRequest L c ''GET'' path [] None (Some tag)
      in if err r \<noteq> None
         then \<lparr>ret = None, err = err r, sent = sent r, self = self r\<rparr>
         else \<lparr>ret = Some (after_call tag (ret r)), err = None, sent = sent r, self = self r\<rparr>)"

definition UpdateTag ::
  "((string \<times> string) list, Tag) lib \<Rightarrow> Client \<Rightarrow> int \<Rightarrow> string \<Rightarrow> Tag option outcome" where
  "UpdateTag L c id' tagValue =
     (let path = ''/api/v1/link/tag/'' @ Sprintf_d id';
          reqBody = [(''tag'', tagValue)];
          tag = Tag_zero;
          r = doRequest L c ''PUT'' path [] (Some reqBody) (Some tag)
      in if err r \<noteq> None
         then \<lparr>ret = None, err = err r, sent = sent r, self = self r\<rparr>
         else \<lparr>ret = Some (after_call tag (ret r)), err = None, sent = sent r, self = self r\<rparr>)"

definition DeleteTag :: "('b, 'r) lib \<Rightarrow> Client \<Rightarrow> int \<Rightarrow> unit outcome" where
  "DeleteTag L c id' =
     (let path = ''/api/v1/link/tag/'' @ Sprintf_d id';
          r = doRequest L c ''DELETE'' path [] None None
      in \<lparr>ret = (), err = err r, sent = sent r, self = self r\<rparr>)"

section \<open>A model of the standard library for concrete runs\<close>

text \<open>
  The theorems about the dispatcher hold for every library \<open>L\<close>. The definitions of
  this section give one library to run the code on concrete inputs. They are written
  after \<^verbatim>\<open>encoding/json\<close> (Go 1.22 and later) for ASCII text in which no escape names
  a code point by its number and no object has a key twice; the wording of the errors
  is not modelled, only that there is one.
\<close>

subsection \<open>Reading one JSON value from the front of a stream\<close>

definition is_space :: "char \<Rightarrow> bool" where
  "is_space c = (c = CHR '' '' \<or> c = CHR 0x09 \<or> c = CHR 0x0A \<or> c = CHR 0x0D)"

definition is_digit :: "char \<Rightarrow> bool" where
  "is_digit c = (CHR ''0'' \<le> c \<and> c \<le> CHR ''9'')"

fun unescape :: "char \<Rightarrow> char option" where
  "unescape c =
     (if c = CHR 0x22 \<or> c = CHR 0x5C \<or> c = CHR ''/'' then Some c
      else if c = CHR ''b'' then Some (CHR 0x08)
      else if c = CHR ''f'' then Some (CHR 0x0C)
      else if c = CHR ''n'' then Some (CHR 0x0A)
      else if c = CHR ''r'' then Some (CHR 0x0D)
      else if c = CHR ''t'' then Some (CHR 0x09)
      else None)"

fun scan_string :: "string \<Rightarrow> string \<Rightarrow> (string \<times> string) option" where
  "scan_string acc [] = None"
| "scan_string acc [c] = (if c = CHR 0x22 then Some (rev acc, []) else None)"
| "scan_string acc (c # e # cs) =
     (if c = CHR 0x22 then Some (rev acc, e # cs)
      else if c = CHR 0x5C then
        (case unescape e of None \<Rightarrow> None | Some x \<Rightarrow> scan_string (x # acc) cs)
      else if c < CHR 0x20 then None
      else scan_string (c # acc) (e # cs))"

definition scan_digits :: "string \<Rightarrow> (string \<times> string) option" where
  "scan_digits s =
     (let ds = takeWhile is_digit s in if ds = [] then None else Some (ds, dropWhile is_digit s))"

definition scan_int_part :: "string \<Rightarrow> (string \<times> string) option" where
  "scan_int_part s =
     (case s of
        [] \<Rightarrow> None
      | c # cs \<Rightarrow> if c = CHR ''0'' then Some ([c], cs) else scan_digits s)"

definition scan_frac :: "string \<Rightarrow> (string \<times> string) option" where
  "scan_frac s =
     (case s of
        [] \<Rightarrow> Some ([], [])
      | c # cs \<Rightarrow>
          if c = CHR ''.'' then
            (case scan_digits cs of None \<Rightarrow> None | Some (ds, rest) \<Rightarrow> Some (c # ds, rest))
          else Some ([], s))"

definition scan_exp :: "string \<Rightarrow> (string \<times> string) option" where
  "scan_exp s =
     (case s of
        [] \<Rightarrow> Some ([], [])
      | c # cs \<Rightarrow>
          if c = CHR ''e'' \<or> c = CHR ''E'' then
            (let (sg, cs') =
               (case cs of
                  [] \<Rightarrow> ([], cs)
                | d # ds \<Rightarrow> if d = CHR ''+'' \<or> d = CHR ''-'' then ([d], ds) else ([], cs))
             in case scan_digits cs' of
                  None \<Rightarrow> None
                | Some (ds, rest) \<Rightarrow> Some (c # sg @ ds, rest))
          else Some ([], s))"

definition scan_number :: "string \<Rightarrow> (string \<times> string) option" where
  "scan_number s =
     (let (sg, s1) =
        (case s of [] \<Rightarrow> ([], s) | c # cs \<Rightarrow> if c = CHR ''-'' then ([c], cs) else ([], s))
      in case scan_int_part s1 of
           None \<Rightarrow> None
         | Some (ip, s2) \<Rightarrow>
             (case scan_frac s2 of
                None \<Rightarrow> None
              | Some (fp, s3) \<Rightarrow>
                  (case scan_exp s3 of
                     None \<Rightarrow> None
                   | Some (ep, s4) \<Rightarrow> Some (sg @ ip @ fp @ ep, s4))))"

definition scan_literal :: "string \<Rightarrow> string \<Rightarrow> string option" where
  "scan_literal w s = (if take (length w) s = w then Some (drop (length w) s) else None)"

fun read_value :: "nat \<Rightarrow> string \<Rightarrow> (json \<times> string) option"
  and read_elements :: "nat \<Rightarrow> json list \<Rightarrow> string \<Rightarrow> (json list \<times> string) option"
  and read_members :: "nat \<Rightarrow> (string \<times> json) list \<Rightarrow> string \<Rightarrow> ((string \<times> json) list \<times> string) option"
where
  "read_value 0 s = None"
| "read_value (Suc n) s =
     (case dropWhile is_space s of
        [] \<Rightarrow> None
      | c # cs \<Rightarrow>
          if c = CHR 0x22 then
            (case scan_string [] cs of None \<Rightarrow> None | Some (x, rest) \<Rightarrow> Some (JString x, rest))
          else if c = CHR ''{'' then
            (case dropWhile is_space cs of
               [] \<Rightarrow> None
             | d # ds \<Rightarrow>
                 if d = CHR ''}'' then Some (JObject [], ds)
                 else (case read_members n [] (d # ds) of
                         None \<Rightarrow> None
                       | Some (ms, rest) \<Rightarrow> Some (JObject ms, rest)))
          else if c = CHR ''['' then
            (case dropWhile is_space cs of
               [] \<Rightarrow> None
             | d # ds \<Rightarrow>
                 if d = CHR '']'' then Some (JArray [], ds)
                 else (case read_elements n [] (d # ds) of
                         None \<Rightarrow> None
                       | Some (es, rest) \<Rightarrow> Some (JArray es, rest)))
          else if c = CHR ''t'' then
            (case scan_literal ''true'' (c # cs) of None \<Rightarrow> None | Some rest \<Rightarrow> Some (JBool True, rest))
          else if c = CHR ''f'' then
            (case scan_literal ''false'' (c # cs) of None \<Rightarrow> None | Some rest \<Rightarrow> Some (JBool False, rest))
          else if c = CHR ''n'' then
            (case scan_literal ''null'' (c # cs) of None \<Rightarrow> None | Some rest \<Rightarrow> Some (JNull, rest))
          else
            (case scan_number (c # cs) of None \<Rightarrow> None | Some (lit, rest) \<Rightarrow> Some (JNumber lit, rest)))"
| "read_elements 0 acc s = None"
| "read_elements (Suc n) acc s =
     (case read_value n s of
        None \<Rightarrow> None
      | Some (v, rest) \<Rightarrow>
          (case dropWhile is_space rest of
             [] \<Rightarrow> None
           | c # cs \<Rightarrow>
               if c = CHR '','' then read_elements n (acc @ [v]) cs
               else if c = CHR '']'' then Some (acc @ [v], cs)
               else None))"
| "read_members 0 acc s = None"
| "read_members (Suc n) acc s =
     (case dropWhile is_space s of
        [] \<Rightarrow> None
      | q # ks \<Rightarrow>
          if q \<noteq> CHR 0x22 then None
          else
            (case scan_string [] ks of
               None \<Rightarrow> None
             | Some (k, rest) \<Rightarrow>
                 (case dropWhile is_space rest of
                    [] \<Rightarrow> None
                  | c # cs \<Rightarrow>
                      if c \<noteq> CHR '':'' then None
                      else
                        (case read_value n cs of
                           None \<Rightarrow> None
                         | Some (v, rest') \<Rightarrow>
                             (case dropWhile is_space rest' of
                                [] \<Rightarrow> None
                              | e # es \<Rightarrow>
                                  if e = CHR '','' then read_members n (acc @ [(k, v)]) es
                                  else if e = CHR ''}'' then Some (acc @ [(k, v)], es)
                                  else None)))))"

definition read_json :: "string \<Rightarrow> (json \<times> string) option" where
  "read_json s = read_value (Suc (length s)) s"

subsection \<open>Decode and Unmarshal\<close>

text \<open>
  \<^verbatim>\<open>Decode\<close> reads one value and leaves the rest of the stream alone. When the stream
  fails, a value that was complete before the failure is still decoded; a string, number
  or literal that runs up to the failure is not known to be complete. The variable is
  untouched when no value could be read.
\<close>

definition is_scalar :: "json \<Rightarrow> bool" where
  "is_scalar j = (case j of JArray _ \<Rightarrow> False | JObject _ \<Rightarrow> False | _ \<Rightarrow> True)"

definition Decoder_Decode ::
  "(json \<Rightarrow> 'r \<Rightarrow> error option \<times> 'r) \<Rightarrow> ReadCloser \<Rightarrow> 'r \<Rightarrow> error option \<times> 'r" where
  "Decoder_Decode unmarshal body v =
     (case read_json (delivered body) of
        None \<Rightarrow>
          (case read_error body of
             Some e \<Rightarrow> (Some e, v)
           | None \<Rightarrow> (Some (errorString ''json: invalid or incomplete value''), v))
      | Some (j, rest) \<Rightarrow>
          (case read_error body of
             Some e \<Rightarrow> if is_scalar j \<and> rest = [] then (Some e, v) else unmarshal j v
           | None \<Rightarrow> unmarshal j v))"

text \<open>Storing a value into a variable of a basic type; null leaves the variable as it is.\<close>

fun digits_value :: "string \<Rightarrow> nat \<Rightarrow> nat" where
  "digits_value [] acc = acc"
| "digits_value (c # cs) acc = digits_value cs (10 * acc + (of_char c - 48))"

definition number_int :: "string \<Rightarrow> int option" where
  "number_int lit =
     (let (neg, ds) =
        (case lit of [] \<Rightarrow> (False, lit) | c # cs \<Rightarrow> if c = CHR ''-'' then (True, cs) else (False, lit))
      in if ds = [] \<or> \<not> list_all is_digit ds then None
         else
           (let i = (if neg then - int (digits_value ds 0) else int (digits_value ds 0))
            in if - (2 ^ 63) \<le> i \<and> i < 2 ^ 63 then Some i else None))"

definition unmarshal_string :: "json \<Rightarrow> string \<Rightarrow> error option \<times> string" where
  "unmarshal_string j old =
     (case j of
        JString s \<Rightarrow> (None, s)
      | JNull \<Rightarrow> (None, old)
      | _ \<Rightarrow> (Some (errorString ''json: cannot unmarshal into Go value of type string''), old))"

definition unmarshal_int :: "json \<Rightarrow> int \<Rightarrow> error option \<times> int" where
  "unmarshal_int j old =
     (case j of
        JNumber lit \<Rightarrow>
          (case number_int lit of
             Some i \<Rightarrow> (None, i)
           | None \<Rightarrow> (Some (errorString ''json: cannot unmarshal number into Go value of type int''), old))
      | JNull \<Rightarrow> (None, old)
      | _ \<Rightarrow> (Some (errorString ''json: cannot unmarshal into Go value of type int''), old))"

definition unmarshal_bool :: "json \<Rightarrow> bool \<Rightarrow> error option \<times> bool" where
  "unmarshal_bool j old =
     (case j of
        JBool b \<Rightarrow> (None, b)
      | JNull \<Rightarrow> (None, old)
      | _ \<Rightarrow> (Some (errorString ''json: cannot unmarshal into Go value of type bool''), old))"

text \<open>
  Into \<^verbatim>\<open>interface{}\<close>, \<^verbatim>\<open>[]interface{}\<close> and \<^verbatim>\<open>map[string]interface{}\<close>: any value, an
  array, an object. A map keeps the entries it had under other keys.
\<close>

definition unmarshal_interface :: "json \<Rightarrow> json \<Rightarrow> error option \<times> json" where
  "unmarshal_interface j old = (None, j)"

definition unmarshal_interfaces :: "json \<Rightarrow> json list option \<Rightarrow> error option \<times> json list option" where
  "unmarshal_interfaces j old =
     (case j of
        JArray xs \<Rightarrow> (None, Some xs)
      | JNull \<Rightarrow> (None, None)
      | _ \<Rightarrow> (Some (errorString ''json: cannot unmarshal into Go value of type []interface {}''), old))"

definition unmarshal_interface_map ::
  "json \<Rightarrow> (string \<times> json) list option \<Rightarrow> error option \<times> (string \<times> json) list option" where
  "unmarshal_interface_map j old =
     (case j of
        JObject ms \<Rightarrow>
          (None,
           Some (filter (\<lambda>(k, _). k \<notin> set (map fst ms)) (case old of None \<Rightarrow> [] | Some es \<Rightarrow> es)
                 @ ms))
      | JNull \<Rightarrow> (None, None)
      | _ \<Rightarrow>
          (Some (errorString ''json: cannot unmarshal into Go value of type map[string]interface {}''),
           old))"

text \<open>
  Into a struct. A field is its JSON name (from the field tag) and what storing a value
  into it does to the struct. A key selects the field with that name, or else the first
  field whose name equals it without regard to case; other keys are skipped. A value of
  the wrong type leaves its field alone, and the first such error is the one returned
  after all members have been stored.
\<close>

type_synonym 'r field = "string \<times> (json \<Rightarrow> 'r \<Rightarrow> error option \<times> 'r)"

definition field ::
  "string \<Rightarrow> ('r \<Rightarrow> 'a) \<Rightarrow> (('a \<Rightarrow> 'a) \<Rightarrow> 'r \<Rightarrow> 'r) \<Rightarrow> (json \<Rightarrow> 'a \<Rightarrow> error option \<times> 'a) \<Rightarrow> 'r field" where
  "field name get upd unmarshal =
     (name, \<lambda>j r. case unmarshal j (get r) of (e, x) \<Rightarrow> (e, upd (\<lambda>_. x) r))"

definition lower :: "char \<Rightarrow> char" where
  "lower c = (if CHR ''A'' \<le> c \<and> c \<le> CHR ''Z'' then char_of (of_char c + (32::nat)) else c)"

definition field_of :: "'r field list \<Rightarrow> string \<Rightarrow> (json \<Rightarrow> 'r \<Rightarrow> error option \<times> 'r) option" where
  "field_of fs key =
     (case filter (\<lambda>f. fst f = key) fs of
        f # _ \<Rightarrow> Some (snd f)
      | [] \<Rightarrow>
          (case filter (\<lambda>f. map lower (fst f) = map lower key) fs of
             f # _ \<Rightarrow> Some (snd f)
           | [] \<Rightarrow> None))"

definition first_error :: "error option \<Rightarrow> error option \<Rightarrow> error option" where
  "first_error saved e = (case saved of None \<Rightarrow> e | Some e0 \<Rightarrow> Some e0)"

fun unmarshal_members ::
  "'r field list \<Rightarrow> (string \<times> json) list \<Rightarrow> error option \<times> 'r \<Rightarrow> error option \<times> 'r" where
  "unmarshal_members fs [] st = st"
| "unmarshal_members fs ((k, j) # ms) (saved, r) =
     unmarshal_members fs ms
       (case field_of fs k of
          None \<Rightarrow> (saved, r)
        | Some store \<Rightarrow> (case store j r of (e, r') \<Rightarrow> (first_error saved e, r')))"

definition unmarshal_struct :: "'r field list \<Rightarrow> json \<Rightarrow> 'r \<Rightarrow> error option \<times> 'r" where
  "unmarshal_struct fs j r =
     (case j of
        JObject ms \<Rightarrow> unmarshal_members fs ms (None, r)
      | JNull \<Rightarrow> (None, r)
      | _ \<Rightarrow> (Some (errorString ''json: cannot unmarshal into Go value of a struct type''), r))"

text \<open>The structs the library decodes into, by their field tags.\<close>

definition Pixel_fields :: "Pixel field list" where
  "Pixel_fields =
     [field ''id'' Pixel_ID Pixel_ID_update unmarshal_int,
      field ''name'' Pixel_Name Pixel_Name_update unmarshal_string,
      field ''pixel_id'' Pixel_PixelID Pixel_PixelID_update unmarshal_string,
      field ''pixel_type'' Pixel_PixelType Pixel_PixelType_update unmarshal_string,
      field ''created_at'' Pixel_CreatedAt Pixel_CreatedAt_update unmarshal_string,
      field ''updated_at'' Pixel_UpdatedAt Pixel_UpdatedAt_update unmarshal_string]"

definition ShortLink_fields :: "ShortLink field list" where
  "ShortLink_fields =
     [field ''short_url'' ShortLink_ShortURL ShortLink_ShortURL_update unmarshal_string,
      field ''description'' ShortLink_Description ShortLink_Description_update unmarshal_string,
      field ''long_url'' ShortLink_LongURL ShortLink_LongURL_update unmarshal_string,
      field ''domain'' ShortLink_Domain ShortLink_Domain_update unmarshal_string,
      field ''short_id'' ShortLink_ShortID ShortLink_ShortID_update unmarshal_string,
      field ''expire_at_views'' ShortLink_ExpireAtViews ShortLink_ExpireAtViews_update
        unmarshal_interface,
      field ''expire_at_datetime'' ShortLink_ExpireAtDatetime ShortLink_ExpireAtDatetime_update
        unmarshal_interface,
      field ''public_stats'' ShortLink_PublicStats ShortLink_PublicStats_update unmarshal_bool,
      field ''created_at'' ShortLink_CreatedAt ShortLink_CreatedAt_update unmarshal_string,
      field ''updated_at'' ShortLink_UpdatedAt ShortLink_UpdatedAt_update unmarshal_string,
      field ''meta'' ShortLink_Meta ShortLink_Meta_update unmarshal_interface]"

definition ExpandResponse_fields :: "ExpandResponse field list" where
  "ExpandResponse_fields =
     [field ''long_url'' ExpandResponse_LongURL ExpandResponse_LongURL_update unmarshal_string,
      field ''expired'' ExpandResponse_Expired ExpandResponse_Expired_update unmarshal_bool]"

definition Stats_fields :: "Stats field list" where
  "Stats_fields =
     [field ''clicks'' Stats_Clicks Stats_Clicks_update unmarshal_int,
      field ''unique_clicks'' Stats_UniqueClicks Stats_UniqueClicks_update unmarshal_int,
      field ''browsers'' Stats_Browsers Stats_Browsers_update unmarshal_interfaces,
      field ''countries'' Stats_Countries Stats_Countries_update unmarshal_interfaces,
      field ''referrers'' Stats_Referrers Stats_Referrers_update unmarshal_interfaces,
      field ''platforms'' Stats_Platforms Stats_Platforms_update unmarshal_interfaces,
      field ''daily_clicks'' Stats_DailyClicks Stats_DailyClicks_update unmarshal_interfaces,
      field ''data'' Stats_Data Stats_Data_update unmarshal_interface_map]"

definition Tag_fields :: "Tag field list" where
  "Tag_fields =
     [field ''id'' Tag_ID Tag_ID_update unmarshal_int,
      field ''tag'' Tag_Tag Tag_Tag_update unmarshal_string,
      field ''created_at'' Tag_CreatedAt Tag_CreatedAt_update unmarshal_string,
      field ''updated_at'' Tag_UpdatedAt Tag_UpdatedAt_update unmarshal_string]"

subsection \<open>Marshal\<close>

definition hex_digit :: "nat \<Rightarrow> char" where
  "hex_digit n = (if n < 10 then char_of (48 + n) else char_of (87 + n))"

definition quote_char :: "char \<Rightarrow> string" where
  "quote_char c =
     (if c = CHR 0x22 \<or> c = CHR 0x5C then [CHR 0x5C, c]
      else if c = CHR 0x08 then [CHR 0x5C, CHR ''b'']
      else if c = CHR 0x0C then [CHR 0x5C, CHR ''f'']
      else if c = CHR 0x0A then [CHR 0x5C, CHR ''n'']
      else if c = CHR 0x0D then [CHR 0x5C, CHR ''r'']
      else if c = CHR 0x09 then [CHR 0x5C, CHR ''t'']
      else if c < CHR 0x20 \<or> c = CHR ''<'' \<or> c = CHR ''>'' \<or> c = CHR ''&'' then
        [CHR 0x5C] @ ''u00'' @ [hex_digit (of_char c div 16), hex_digit (of_char c mod 16)]
      else [c])"

definition quote :: "string \<Rightarrow> string" where
  "quote s = [CHR 0x22] @ concat (map quote_char s) @ [CHR 0x22]"

fun join :: "string \<Rightarrow> string list \<Rightarrow> string" where
  "join sep [] = []"
| "join sep [x] = x"
| "join sep (x # y # ys) = x @ sep @ join sep (y # ys)"

definition Marshal_map :: "(string \<times> string) list \<Rightarrow> error + string" where
  "Marshal_map kvs =
     Inr (''{'' @ join '','' (map (\<lambda>(k, v). quote k @ '':'' @ quote v) (sort_key fst kvs)) @ ''}'')"

text \<open>\<^verbatim>\<open>BulkShortenRequest\<close>, by its field tags; \<^verbatim>\<open>omitempty\<close> drops a nil or empty slice.\<close>

definition Marshal_ints :: "int list \<Rightarrow> string" where
  "Marshal_ints xs = ''['' @ join '','' (map Sprintf_d xs) @ '']''"

definition Marshal_BulkShortenRequest :: "BulkShortenRequest \<Rightarrow> error + string" where
  "Marshal_BulkShortenRequest r =
     Inr (''{'' @ quote ''domain'' @ '':'' @ quote (BulkShortenRequest_Domain r)
          @ '','' @ quote ''links'' @ '':''
          @ (case BulkShortenRequest_Links r of
               None \<Rightarrow> ''null''
             | Some ls \<Rightarrow> ''['' @ join '','' (map quote ls) @ '']'')
          @ (case BulkShortenRequest_Tags r of
               None \<Rightarrow> []
             | Some ts \<Rightarrow> if ts = [] then [] else '','' @ quote ''tags'' @ '':'' @ Marshal_ints ts)
          @ (case BulkShortenRequest_Pixels r of
               None \<Rightarrow> []
             | Some ps \<Rightarrow> if ps = [] then [] else '','' @ quote ''pixels'' @ '':'' @ Marshal_ints ps)
          @ ''}'')"

subsection \<open>NewRequest, transports and clients\<close>

text \<open>
  One of the checks of \<^verbatim>\<open>http.NewRequest\<close>: \<^verbatim>\<open>url.Parse\<close> rejects a url with an ASCII
  control character.
\<close>

definition url_control_check :: "string \<Rightarrow> string \<Rightarrow> error option" where
  "url_control_check method url =
     (if list_ex (\<lambda>c. c < CHR 0x20 \<or> c = CHR 0x7F) url
      then Some (errorString ''net/url: invalid control character in URL'')
      else None)"

definition encoding_json ::
  "('b \<Rightarrow> error + string) \<Rightarrow> (json \<Rightarrow> 'r \<Rightarrow> error option \<times> 'r) \<Rightarrow> ('b, 'r) lib" where
  "encoding_json marshal unmarshal =
     \<lparr>json_Marshal = marshal, NewRequest_error = url_control_check,
      json_Decode = Decoder_Decode unmarshal\<rparr>"

text \<open>
  Three transports: a server that answers every request with one status and body, a
  server whose body breaks off with a read error after some bytes, and a network that
  cannot be reached.
\<close>

definition server :: "int \<Rightarrow> string \<Rightarrow> Request \<Rightarrow> error + Response" where
  "server status text req =
     Inr \<lparr>StatusCode = status, Body = \<lparr>delivered = text, read_error = None\<rparr>\<rparr>"

definition broken_server :: "int \<Rightarrow> string \<Rightarrow> error \<Rightarrow> Request \<Rightarrow> error + Response" where
  "broken_server status text e req =
     Inr \<lparr>StatusCode = status, Body = \<lparr>delivered = text, read_error = Some e\<rparr>\<rparr>"

definition unreachable :: "error \<Rightarrow> Request \<Rightarrow> error + Response" where
  "unreachable e req = Inl e"

section \<open>Properties of the dispatcher\<close>

subsection \<open>What a call sends and what it makes of the answer\<close>

lemma doRequest_url_cases:
  "doRequest_url c path query =
     (if query = [] then BaseURL c @ path else BaseURL c @ path @ ''?'' @ query)"
  by (simp add: doRequest_url_def Let_def)

lemma doRequest_sent_cases:
  "sent (doRequest L c method path query body result) = []
   \<or> (\<exists>req. sent (doRequest L c method path query body result) = [req])"
  by (auto simp: doRequest_def Let_def split: sum.splits option.splits prod.splits)

lemma doRequest_sent_single:
  assumes "sent (doRequest L c method path query body result) = [req]"
  shows "\<exists>buf. doRequest_buf L body = Inr buf
           \<and> NewRequest_error L method (doRequest_url c path query) = None
           \<and> req = doRequest_headers c
                 \<lparr>Method = (if method = [] then ''GET'' else method),
                  URL = doRequest_url c path query, Header = Map.empty, ReqBody = buf\<rparr>"
  using assms
  by (auto simp: doRequest_def http_NewRequest_def Let_def
           split: sum.splits option.splits prod.splits)

lemma sent_member_single:
  assumes "req \<in> set (sent (doRequest L c method path query body result))"
  shows "sent (doRequest L c method path query body result) = [req]"
  using assms doRequest_sent_cases [of L c "method" "path" query body result] by auto

lemma doRequest_sent_URL:
  assumes "req \<in> set (sent (doRequest L c method path query body result))"
  shows "URL req = doRequest_url c path query"
  using doRequest_sent_single [OF sent_member_single [OF assms]]
  by (auto simp: doRequest_headers_def Header_Set_def)

lemma doRequest_sent_ReqBody:
  assumes "req \<in> set (sent (doRequest L c method path query body result))"
  shows "doRequest_buf L body = Inr (ReqBody req)"
  using doRequest_sent_single [OF sent_member_single [OF assms]]
  by (auto simp: doRequest_headers_def Header_Set_def)

lemma doRequest_transport_error:
  assumes "sent (doRequest L c method path query body result) = [req]"
    and "Client c req = Inl e"
  shows "err (doRequest L c method path query body result) = Some e
         \<and> ret (doRequest L c method path query body result) = result"
  using assms
  by (auto simp: doRequest_def http_NewRequest_def Let_def
           split: sum.splits option.splits prod.splits)

lemma doRequest_answered:
  assumes "sent (doRequest L c method path query body result) = [req]"
    and "Client c req = Inr resp"
  shows "(err (doRequest L c method path query body result),
          ret (doRequest L c method path query body result))
         = doRequest_response L resp result"
  using assms
  by (auto simp: doRequest_def http_NewRequest_def Let_def
           split: sum.splits option.splits prod.splits)

lemma doRequest_success:
  assumes "sent (doRequest L c method path query body result) = [req]"
    and "Client c req = Inr resp"
    and "200 \<le> StatusCode resp" and "StatusCode resp < 300"
  shows "(case result of
            Some v \<Rightarrow>
              err (doRequest L c method path query body result) = fst (json_Decode L (Body resp) v)
              \<and> ret (doRequest L c method path query body result)
                  = Some (snd (json_Decode L (Body resp) v))
          | None \<Rightarrow>
              err (doRequest L c method path query body result) = None
              \<and> ret (doRequest L c method path query body result) = None)"
proof -
  from doRequest_answered [OF assms(1,2)] assms(3,4)
  show ?thesis
    by (auto simp: doRequest_response_def split: option.splits prod.splits)
qed

lemma doRequest_no_slot_success:
  assumes "sent (doRequest L c method path query body None) = [req]"
    and "Client c req = Inr resp"
    and "200 \<le> StatusCode resp" and "StatusCode resp < 300"
  shows "err (doRequest L c method path query body None) = None"
  using doRequest_success [OF assms] by simp

lemma doRequest_self: "self (doRequest L c method path query body result) = c"
  by (auto simp: doRequest_def Let_def split: sum.splits option.splits prod.splits)

lemma doRequest_headers_Header:
  "Header (doRequest_headers c \<lparr>Method = m, URL = u, Header = Map.empty, ReqBody = b\<rparr>)
     = [''Authorization'' \<mapsto> [''Bearer '' @ APIKey c],
        ''Content-Type'' \<mapsto> [''application/json''],
        ''Accept'' \<mapsto> [''application/json'']]"
  by (simp add: doRequest_headers_def Header_Set_def)

subsection \<open>The methods in terms of the dispatcher\<close>

lemma CreatePixel_self: "self (CreatePixel L1 c pcr) = c"
  by (simp add: CreatePixel_def Let_def doRequest_self)

lemma ListPixels_self: "self (ListPixels L2 c) = c"
  by (simp add: ListPixels_def Let_def doRequest_self)

lemma GetPixel_self: "self (GetPixel L3 c i) = c"
  by (simp add: GetPixel_def Let_def doRequest_self)

lemma UpdatePixel_self: "self (UpdatePixel L4 c pur) = c"
  by (simp add: UpdatePixel_def Let_def doRequest_self)

lemma DeletePixel_self: "self (DeletePixel L5 c i) = c"
  by (simp add: DeletePixel_def Let_def doRequest_self)

lemma CreateShortLink_self: "self (CreateShortLink L6 c scr) = c"
  by (simp add: CreateShortLink_def Let_def doRequest_self)

lemma GetShortLink_self: "self (GetShortLink L7 c shortURL) = c"
  by (simp add: GetShortLink_def Let_def doRequest_self)

lemma UpdateShortLink_self: "self (UpdateShortLink L8 c sur) = c"
  by (simp add: UpdateShortLink_def Let_def doRequest_self)

lemma DeleteShortLink_self: "self (DeleteShortLink L9 c shortURL) = c"
  by (simp add: DeleteShortLink_def Let_def doRequest_self)

lemma ExpandShortLink_self: "self (ExpandShortLink L10 c er) = c"
  by (simp add: ExpandShortLink_def Let_def doRequest_self)

lemma ListShortLinks_self: "self (ListShortLinks L11 c queryParams) = c"
  by (simp add: ListShortLinks_def Let_def doRequest_self)

lemma BulkShortenLinks_self: "self (BulkShortenLinks L12 c bsr) = c"
  by (simp add: BulkShortenLinks_def Let_def doRequest_self)

lemma GetStats_self: "self (GetStats L13 c shortURL) = c"
  by (simp add: GetStats_def Let_def doRequest_self)

lemma ListTags_self: "self (ListTags L14 c) = c"
  by (simp add: ListTags_def Let_def doRequest_self)

lemma CreateTag_self: "self (CreateTag L15 c tagValue) = c"
  by (simp add: CreateTag_def Let_def doRequest_self)

lemma GetTag_self: "self (GetTag L16 c i) = c"
  by (simp add: GetTag_def Let_def doRequest_self)

lemma UpdateTag_self: "self (UpdateTag L17 c i tagValue) = c"
  by (simp add: UpdateTag_def Let_def doRequest_self)

lemma DeleteTag_self: "self (DeleteTag L18 c i) = c"
  by (simp add: DeleteTag_def Let_def doRequest_self)

lemma CreatePixel_ret_err: "(ret (CreatePixel L1 c pcr) \<noteq> None) = (err (CreatePixel L1 c pcr) = None)"
  by (simp add: CreatePixel_def Let_def)

lemma GetPixel_ret_err: "(ret (GetPixel L3 c i) \<noteq> None) = (err (GetPixel L3 c i) = None)"
  by (simp add: GetPixel_def Let_def)

lemma UpdatePixel_ret_err: "(ret (UpdatePixel L4 c pur) \<noteq> None) = (err (UpdatePixel L4 c pur) = None)"
  by (simp add: UpdatePixel_def Let_def)

lemma CreateShortLink_ret_err: "(ret (CreateShortLink L6 c scr) \<noteq> None) = (err (CreateShortLink L6 c scr) = None)"
  by (simp add: CreateShortLink_def Let_def)

lemma GetShortLink_ret_err: "(ret (GetShortLink L7 c shortURL) \<noteq> None) = (err (GetShortLink L7 c shortURL) = None)"
  by (simp add: GetShortLink_def Let_def)

lemma UpdateShortLink_ret_err: "(ret (UpdateShortLink L8 c sur) \<noteq> None) = (err (UpdateShortLink L8 c sur) = None)"
  by (simp add: UpdateShortLink_def Let_def)

lemma ExpandShortLink_ret_err: "(ret (ExpandShortLink L10 c er) \<noteq> None) = (err (ExpandShortLink L10 c er) = None)"
  by (simp add: ExpandShortLink_def Let_def)

lemma GetStats_ret_err: "(ret (GetStats L13 c shortURL) \<noteq> None) = (err (GetStats L13 c shortURL) = None)"
  by (simp add: GetStats_def Let_def)

lemma CreateTag_ret_err: "(ret (CreateTag L15 c tagValue) \<noteq> None) = (err (CreateTag L15 c tagValue) = None)"
  by (simp add: CreateTag_def Let_def)

lemma GetTag_ret_err: "(ret (GetTag L16 c i) \<noteq> None) = (err (GetTag L16 c i) = None)"
  by (simp add: GetTag_def Let_def)

lemma UpdateTag_ret_err: "(ret (UpdateTag L17 c i tagValue) \<noteq> None) = (err (UpdateTag L17 c i tagValue) = None)"
  by (simp add: UpdateTag_def Let_def)

lemma ListShortLinks_ret_err: "err (ListShortLinks L11 c queryParams) \<noteq> None \<Longrightarrow> ret (ListShortLinks L11 c queryParams) = []"
  by (simp add: ListShortLinks_def Let_def split: if_splits)

lemma BulkShortenLinks_ret_err: "err (BulkShortenLinks L12 c bsr) \<noteq> None \<Longrightarrow> ret (BulkShortenLinks L12 c bsr) = []"
  by (simp add: BulkShortenLinks_def Let_def split: if_splits)

lemma CreateTag_doRequest:
  "sent (CreateTag L c tagValue)
     = sent (doRequest L c ''POST'' ''/api/v1/link/tag'' [] (Some [(''tag'', tagValue)]) (Some Tag_zero))"
  by (simp add: CreateTag_def Let_def)

lemma ListShortLinks_loop_join:
  "fst (ListShortLinks_loop kvs (q, first))
     = (if kvs = [] then q
        else (if first then q else q @ ''&'') @ join ''&'' (map (\<lambda>(k, v). k @ ''='' @ v) kvs))"
proof (induction kvs arbitrary: q first)
  case Nil
  then show ?case by simp
next
  case (Cons kv kvs)
  obtain k v where kv: "kv = (k, v)" by (cases kv)
  show ?case
  proof (cases kvs)
    case Nil
    then show ?thesis by (simp add: kv Let_def)
  next
    case (Cons kv' kvs')
    with Cons.IH [of "(if \<not> first then q @ ''&'' else q) @ (k @ ''='' @ v)" False]
    show ?thesis by (simp add: kv Let_def)
  qed
qed

lemma ListShortLinks_query:
  "fst (ListShortLinks_loop queryParams ([], True))
     = join ''&'' (map (\<lambda>(k, v). k @ ''='' @ v) queryParams)"
  by (simp add: ListShortLinks_loop_join)

lemma join_contains:
  "x \<in> set xs \<Longrightarrow> \<exists>pre post. join sep xs = pre @ x @ post"
proof (induction sep xs rule: join.induct)
  case (1 sep)
  then show ?case by simp
next
  case (2 sep y)
  then have "join sep [y] = [] @ x @ []" by simp
  then show ?case by blast
next
  case (3 sep y z zs)
  show ?case
  proof (cases "x = y")
    case True
    then have "join sep (y # z # zs) = [] @ x @ (sep @ join sep (z # zs))" by simp
    then show ?thesis by blast
  next
    case False
    with 3 obtain pre post where "join sep (z # zs) = pre @ x @ post" by auto
    then have "join sep (y # z # zs) = (y @ sep @ pre) @ x @ post" by simp
    then show ?thesis by blast
  qed
qed

lemma ListShortLinks_sent_URL:
  assumes "req \<in> set (sent (ListShortLinks L c queryParams))"
  shows "URL req = doRequest_url c ''/api/v1/link/list''
                     (join ''&'' (map (\<lambda>(k, v). k @ ''='' @ v) queryParams))"
proof -
  from assms have "req \<in> set (sent (doRequest L c ''GET'' ''/api/v1/link/list''
      (fst (ListShortLinks_loop queryParams ([], True))) None (Some [])))"
    by (simp add: ListShortLinks_def Let_def split: if_splits)
  from doRequest_sent_URL [OF this] show ?thesis by (simp add: ListShortLinks_query)
qed

lemma ListShortLinks_returns_decoded:
  assumes "sent (ListShortLinks L c queryParams) = [req]" and "Client c req = Inr resp"
    and "200 \<le> StatusCode resp" and "StatusCode resp < 300"
    and "json_Decode L (Body resp) [] = (None, s)"
  shows "ret (ListShortLinks L c queryParams) = s \<and> err (ListShortLinks L c queryParams) = None"
proof -
  let ?r = "doRequest L c ''GET'' ''/api/v1/link/list''
      (fst (ListShortLinks_loop queryParams ([], True))) None (Some [])"
  from assms(1) have "sent ?r = [req]" by (simp add: ListShortLinks_def Let_def split: if_splits)
  from doRequest_success [OF this assms(2,3,4)] assms(5)
  have "err ?r = None" and "ret ?r = Some s" by simp_all
  then show ?thesis by (simp add: ListShortLinks_def Let_def)
qed

lemma BulkShortenLinks_returns_decoded:
  assumes "sent (BulkShortenLinks L c reqData) = [req]" and "Client c req = Inr resp"
    and "200 \<le> StatusCode resp" and "StatusCode resp < 300"
    and "json_Decode L (Body resp) [] = (None, s)"
  shows "ret (BulkShortenLinks L c reqData) = s \<and> err (BulkShortenLinks L c reqData) = None"
proof -
  let ?r = "doRequest L c ''POST'' ''/api/v1/link/bulk'' [] (Some reqData) (Some [])"
  from assms(1) have "sent ?r = [req]" by (simp add: BulkShortenLinks_def Let_def split: if_splits)
  from doRequest_success [OF this assms(2,3,4)] assms(5)
  have "err ?r = None" and "ret ?r = Some s" by simp_all
  then show ?thesis by (simp add: BulkShortenLinks_def Let_def)
qed

lemma doRequest_no_payload_accepted:
  assumes "NewRequest_error L method (doRequest_url c path query) = None"
  shows "\<exists>req. sent (doRequest L c method path query None result) = [req]
               \<and> URL req = doRequest_url c path query \<and> ReqBody req = []"
  using assms
  by (auto simp: doRequest_def doRequest_buf_def http_NewRequest_def doRequest_headers_def
        Header_Set_def Let_def split: sum.splits prod.splits)

lemma doRequest_no_payload_refused:
  assumes "NewRequest_error L method (doRequest_url c path query) = Some e"
  shows "sent (doRequest L c method path query None result) = []
         \<and> err (doRequest L c method path query None result) = Some e
         \<and> ret (doRequest L c method path query None result) = result"
  using assms
  by (simp add: doRequest_def doRequest_buf_def http_NewRequest_def Let_def)

lemma GetShortLink_err:
  "err (GetShortLink L c shortURL)
     = err (doRequest L c ''GET'' ''/api/v1/link'' (''short_url='' @ shortURL) None
              (Some ShortLink_zero))"
  by (simp add: GetShortLink_def Let_def)

lemma GetStats_err:
  "err (GetStats L c shortURL)
     = err (doRequest L c ''GET'' ''/api/v1/link/stats'' (''short_url='' @ shortURL) None
              (Some Stats_zero))"
  by (simp add: GetStats_def Let_def)

lemma GetShortLink_sent:
  "sent (GetShortLink L c shortURL)
     = sent (doRequest L c ''GET'' ''/api/v1/link'' (''short_url='' @ shortURL) None
               (Some ShortLink_zero))"
  by (simp add: GetShortLink_def Let_def)

lemma GetStats_sent:
  "sent (GetStats L c shortURL)
     = sent (doRequest L c ''GET'' ''/api/v1/link/stats'' (''short_url='' @ shortURL) None
               (Some Stats_zero))"
  by (simp add: GetStats_def Let_def)

lemma short_url_target:
  "doRequest_url c p (''short_url='' @ shortURL) = BaseURL c @ p @ ''?'' @ ''short_url='' @ shortURL"
  by (simp add: doRequest_url_cases)

section \<open>The claims\<close>

subsection \<open>C1: a status outside 200 to 299\<close>

text \<open>
  Claim C1, as amended. When the transport answers a call of the dispatcher with a status
  code outside [200, 300), the call ends with an error whose message is
  \<^verbatim>\<open>API error: \<close> followed by the bytes that were read from the response body,
  verbatim, and the variable behind the result pointer is left as it was. A failure
  while reading the body raises no error of its own: the message carries the bytes read
  before the failure.
\<close>

theorem doRequest_failure_status:
  assumes "sent (doRequest L c method path query body result) = [req]"
    and "Client c req = Inr resp"
    and "StatusCode resp < 200 \<or> 300 \<le> StatusCode resp"
  shows "(\<exists>e. err (doRequest L c method path query body result) = Some e
              \<and> Error e = ''API error: '' @ delivered (Body resp))
         \<and> ret (doRequest L c method path query body result) = result"
proof -
  from doRequest_answered [OF assms(1,2)] assms(3)
  have "err (doRequest L c method path query body result)
          = Some (fmt_Errorf_API_error (delivered (Body resp)))"
    and "ret (doRequest L c method path query body result) = result"
    by (auto simp: doRequest_response_def ioutil_ReadAll_def)
  then show ?thesis by (simp add: fmt_Errorf_API_error_def)
qed

text \<open>
  The example of the specification: status 404 with the body \<^verbatim>\<open>{"message":"not found"}\<close>.
\<close>

theorem doRequest_failure_status_witness:
  \<open>ret (GetTag (encoding_json Marshal_map (unmarshal_struct Tag_fields))
          (NewClient (server 404 ''{"message":"not found"}'') ''token'') 5) = None
   \<and> (\<exists>e. err (GetTag (encoding_json Marshal_map (unmarshal_struct Tag_fields))
                (NewClient (server 404 ''{"message":"not found"}'') ''token'') 5) = Some e
          \<and> Error e = ''API error: {"message":"not found"}'')\<close>
proof -
  let ?L = "encoding_json Marshal_map (unmarshal_struct Tag_fields)
              :: ((string \<times> string) list, Tag) lib"
  let ?c = \<open>NewClient (server 404 ''{"message":"not found"}'') ''token''\<close>
  let ?resp = \<open>\<lparr>StatusCode = 404,
                 Body = \<lparr>delivered = ''{"message":"not found"}'', read_error = None\<rparr>\<rparr>\<close>
  let ?r = "doRequest ?L ?c ''GET'' (''/api/v1/link/tag/'' @ Sprintf_d 5) [] None (Some Tag_zero)"
  have "length (sent ?r) = 1" by code_simp
  then obtain req where s: "sent ?r = [req]"
    by (cases "sent ?r") auto
  have t: "Client ?c req = Inr ?resp"
    by (simp add: NewClient_def server_def)
  have "StatusCode ?resp < 200 \<or> 300 \<le> StatusCode ?resp" by simp
  from doRequest_failure_status [OF s t this]
  obtain e where "err ?r = Some e" and "Error e = ''API error: '' @ delivered (Body ?resp)"
    by blast
  then show ?thesis by (simp add: GetTag_def Let_def)
qed

text \<open>
  As stated, the claim says that a failed read leaves the error with an empty body.
  A server answers 500 and its body breaks off after six bytes: the error carries those
  six bytes, and is not the error with the empty body.
\<close>

theorem read_failure_counterexample:
  \<open>err (GetTag (encoding_json Marshal_map (unmarshal_struct Tag_fields))
          (NewClient (broken_server 500 ''{"mess'' (errorString ''unexpected EOF'')) ''token'') 5)
     = Some (errorString ''API error: {"mess'')
   \<and> err (GetTag (encoding_json Marshal_map (unmarshal_struct Tag_fields))
          (NewClient (broken_server 500 ''{"mess'' (errorString ''unexpected EOF'')) ''token'') 5)
     \<noteq> Some (fmt_Errorf_API_error [])\<close>
  by code_simp

subsection \<open>C2: a status from 200 to 299\<close>

text \<open>
  Claim C2. When the transport answers a call of the dispatcher with a status code in
  [200, 300), a call with a result pointer decodes the body into the variable behind it
  and returns the decoder's error (none when the body has the expected shape); a call
  without a result pointer returns no error and decodes nothing. For \<^verbatim>\<open>CreateTag\<close>: when
  the decoder reads the body as a tag record without error, the method returns that
  record and no error.
\<close>

theorem doRequest_success_decodes:
  "(\<forall>req resp.
      sent (doRequest L c method path query body result) = [req] \<and> Client c req = Inr resp
      \<and> 200 \<le> StatusCode resp \<and> StatusCode resp < 300
      \<longrightarrow> (case result of
             Some v \<Rightarrow>
               err (doRequest L c method path query body result)
                 = fst (json_Decode L (Body resp) v)
               \<and> ret (doRequest L c method path query body result)
                   = Some (snd (json_Decode L (Body resp) v))
           | None \<Rightarrow>
               err (doRequest L c method path query body result) = None
               \<and> ret (doRequest L c method path query body result) = None))
   \<and> (\<forall>req resp tag.
        sent (CreateTag L' c tagValue) = [req] \<and> Client c req = Inr resp
        \<and> 200 \<le> StatusCode resp \<and> StatusCode resp < 300
        \<and> json_Decode L' (Body resp) Tag_zero = (None, tag)
        \<longrightarrow> ret (CreateTag L' c tagValue) = Some tag \<and> err (CreateTag L' c tagValue) = None)"
proof (intro conjI allI impI)
  fix req resp
  assume "sent (doRequest L c method path query body result) = [req] \<and> Client c req = Inr resp
      \<and> 200 \<le> StatusCode resp \<and> StatusCode resp < 300"
  then show "(case result of
             Some v \<Rightarrow>
               err (doRequest L c method path query body result)
                 = fst (json_Decode L (Body resp) v)
               \<and> ret (doRequest L c method path query body result)
                   = Some (snd (json_Decode L (Body resp) v))
           | None \<Rightarrow>
               err (doRequest L c method path query body result) = None
               \<and> ret (doRequest L c method path query body result) = None)"
    using doRequest_success by blast
next
  fix req resp tag
  assume a: "sent (CreateTag L' c tagValue) = [req] \<and> Client c req = Inr resp
        \<and> 200 \<le> StatusCode resp \<and> StatusCode resp < 300
        \<and> json_Decode L' (Body resp) Tag_zero = (None, tag)"
  let ?r = "doRequest L' c ''POST'' ''/api/v1/link/tag'' [] (Some [(''tag'', tagValue)]) (Some Tag_zero)"
  from a have s: "sent ?r = [req]" by (simp add: CreateTag_doRequest)
  from doRequest_success [OF s, of resp] a
  have "err ?r = None" and "ret ?r = Some tag" by simp_all
  then show "ret (CreateTag L' c tagValue) = Some tag" and "err (CreateTag L' c tagValue) = None"
    by (simp_all add: CreateTag_def Let_def)
qed

text \<open>The example of the claim, run through the model of the decoder.\<close>

theorem doRequest_success_decodes_witness:
  \<open>ret (CreateTag (encoding_json Marshal_map (unmarshal_struct Tag_fields))
          (NewClient
             (server 200
                ''{"id":1,"tag":"fall2024","created_at":"2024-01-01","updated_at":"2024-01-01"}'')
             ''token'')
          ''fall2024'')
     = Some \<lparr>Tag_ID = 1, Tag_Tag = ''fall2024'', Tag_CreatedAt = ''2024-01-01'',
              Tag_UpdatedAt = ''2024-01-01''\<rparr>
   \<and> err (CreateTag (encoding_json Marshal_map (unmarshal_struct Tag_fields))
          (NewClient
             (server 200
                ''{"id":1,"tag":"fall2024","created_at":"2024-01-01","updated_at":"2024-01-01"}'')
             ''token'')
          ''fall2024'')
     = None\<close>
proof -
  let ?L = "encoding_json Marshal_map (unmarshal_struct Tag_fields)
              :: ((string \<times> string) list, Tag) lib"
  let ?body = \<open>\<lparr>delivered =
                   ''{"id":1,"tag":"fall2024","created_at":"2024-01-01","updated_at":"2024-01-01"}'',
                 read_error = None\<rparr>\<close>
  let ?c = \<open>NewClient
             (server 200
                ''{"id":1,"tag":"fall2024","created_at":"2024-01-01","updated_at":"2024-01-01"}'')
             ''token''\<close>
  let ?resp = "\<lparr>StatusCode = 200, Body = ?body\<rparr>"
  let ?tag = "\<lparr>Tag_ID = 1, Tag_Tag = ''fall2024'', Tag_CreatedAt = ''2024-01-01'',
              Tag_UpdatedAt = ''2024-01-01''\<rparr>"
  have "length (sent (CreateTag ?L ?c ''fall2024'')) = 1" by code_simp
  then obtain req where s: "sent (CreateTag ?L ?c ''fall2024'') = [req]"
    by (cases "sent (CreateTag ?L ?c ''fall2024'')") auto
  have t: "Client ?c req = Inr ?resp"
    by (simp add: NewClient_def server_def)
  have d: "json_Decode ?L ?body Tag_zero = (None, ?tag)" by code_simp
  from doRequest_success_decodes [of ?L ?c "''POST''" "[]" "[]" None None ?L "''fall2024''"] s t d
  show ?thesis by simp
qed

subsection \<open>C3: the headers\<close>

text \<open>
  Claim C3. Every request the dispatcher hands to the transport has exactly three
  headers: \<^verbatim>\<open>Authorization\<close> with \<^verbatim>\<open>Bearer \<close> followed by the client's key,
  \<^verbatim>\<open>Content-Type\<close> and \<^verbatim>\<open>Accept\<close>, both \<^verbatim>\<open>application/json\<close>, whatever the
  payload is and whether there is one.
\<close>

theorem doRequest_three_headers:
  "\<forall>req \<in> set (sent (doRequest L c method path query body result)).
     Header req = [''Authorization'' \<mapsto> [''Bearer '' @ APIKey c],
                   ''Content-Type'' \<mapsto> [''application/json''],
                   ''Accept'' \<mapsto> [''application/json'']]
     \<and> dom (Header req) = {''Authorization'', ''Content-Type'', ''Accept''}
     \<and> card (dom (Header req)) = 3"
proof
  fix req
  assume "req \<in> set (sent (doRequest L c method path query body result))"
  with doRequest_sent_cases [of L c "method" "path" query body result]
  have "sent (doRequest L c method path query body result) = [req]" by auto
  from doRequest_sent_single [OF this] obtain buf where
    req: "req = doRequest_headers c
                 \<lparr>Method = (if method = [] then ''GET'' else method),
                  URL = doRequest_url c path query, Header = Map.empty, ReqBody = buf\<rparr>"
    by blast
  have h: "Header req = [''Authorization'' \<mapsto> [''Bearer '' @ APIKey c],
                   ''Content-Type'' \<mapsto> [''application/json''],
                   ''Accept'' \<mapsto> [''application/json'']]"
    unfolding req by (rule doRequest_headers_Header)
  have d: "dom (Header req) = {''Authorization'', ''Content-Type'', ''Accept''}"
    unfolding h by auto
  have "card (dom (Header req)) = 3"
    unfolding d by simp
  with h d show "Header req = [''Authorization'' \<mapsto> [''Bearer '' @ APIKey c],
                   ''Content-Type'' \<mapsto> [''application/json''],
                   ''Accept'' \<mapsto> [''application/json'']]
     \<and> dom (Header req) = {''Authorization'', ''Content-Type'', ''Accept''}
     \<and> card (dom (Header req)) = 3" by simp
qed

theorem doRequest_three_headers_witness:
  "map (\<lambda>req. (Header req ''Authorization'', Header req ''Content-Type'', Header req ''Accept'',
               Header req ''User-Agent'', card (dom (Header req))))
     (sent (doRequest (encoding_json Marshal_map (unmarshal_struct Tag_fields))
              (NewClient (server 200 []) ''YOUR_API_TOKEN'')
              ''POST'' ''/api/v1/link/tag'' [] (Some [(''tag'', ''fall2024'')]) (Some Tag_zero)))
   = [(Some [''Bearer YOUR_API_TOKEN''], Some [''application/json''], Some [''application/json''],
       None, 3)]"
proof -
  let ?L = "encoding_json Marshal_map (unmarshal_struct Tag_fields)
              :: ((string \<times> string) list, Tag) lib"
  let ?c = "NewClient (server 200 []) ''YOUR_API_TOKEN''"
  let ?r = "doRequest ?L ?c ''POST'' ''/api/v1/link/tag'' [] (Some [(''tag'', ''fall2024'')])
              (Some Tag_zero)"
  have "length (sent ?r) = 1" by code_simp
  then obtain req where s: "sent ?r = [req]"
    by (cases "sent ?r") auto
  then have "req \<in> set (sent ?r)" by simp
  with doRequest_three_headers [of ?L ?c "''POST''" "''/api/v1/link/tag''" "[]"
         "Some [(''tag'', ''fall2024'')]" "Some Tag_zero"]
  have "Header req = [''Authorization'' \<mapsto> [''Bearer '' @ APIKey ?c],
                   ''Content-Type'' \<mapsto> [''application/json''],
                   ''Accept'' \<mapsto> [''application/json'']]"
    and "card (dom (Header req)) = 3"
    by blast+
  with s show ?thesis by (simp add: NewClient_def)
qed

subsection \<open>C4: the url\<close>

text \<open>
  Claim C4. For every method, path and query, the url of the dispatcher is the base
  address followed by the path when the query is empty, and followed by the path, a
  question mark and the query when it is not; every request handed to the transport was
  built from that url.
\<close>

theorem doRequest_target_url:
  "(query = [] \<longrightarrow> doRequest_url c path query = BaseURL c @ path)
   \<and> (query \<noteq> [] \<longrightarrow> doRequest_url c path query = BaseURL c @ path @ ''?'' @ query)
   \<and> (\<forall>req \<in> set (sent (doRequest L c method path query body result)).
          URL req = doRequest_url c path query)"
proof -
  have "URL req = doRequest_url c path query"
    if "req \<in> set (sent (doRequest L c method path query body result))" for req
  proof -
    from that doRequest_sent_cases [of L c "method" "path" query body result]
    have "sent (doRequest L c method path query body result) = [req]" by auto
    from doRequest_sent_single [OF this] show ?thesis
      by (auto simp: doRequest_headers_def Header_Set_def)
  qed
  then show ?thesis by (simp add: doRequest_url_cases)
qed

theorem doRequest_target_url_witness:
  "doRequest_url (NewClient (server 200 []) ''token'') ''/api/v1/link/tag'' []
     = ''https://api.t.ly/api/v1/link/tag''
   \<and> doRequest_url (NewClient (server 200 []) ''token'') ''/api/v1/link/list'' ''search=amazon''
     = ''https://api.t.ly/api/v1/link/list?search=amazon''
   \<and> map URL (sent (doRequest (encoding_json Marshal_map unmarshal_string)
                       (NewClient (server 200 []) ''token'')
                       ''GET'' ''/api/v1/link/list'' ''search=amazon'' None (Some [])))
     = [''https://api.t.ly/api/v1/link/list?search=amazon'']"
proof -
  let ?L = "encoding_json Marshal_map unmarshal_string :: ((string \<times> string) list, string) lib"
  let ?c = "NewClient (server 200 []) ''token''"
  let ?r = "doRequest ?L ?c ''GET'' ''/api/v1/link/list'' ''search=amazon'' None (Some [])"
  have "length (sent ?r) = 1" by code_simp
  then obtain req where s: "sent ?r = [req]"
    by (cases "sent ?r") auto
  then have m: "req \<in> set (sent ?r)" by simp
  have e: "([]::string) = []" and n: "''search=amazon'' \<noteq> []" by simp_all
  from doRequest_target_url [of "[]" ?c "''/api/v1/link/tag''" ?L "''GET''" None "Some []"] e
  have a: "doRequest_url ?c ''/api/v1/link/tag'' [] = BaseURL ?c @ ''/api/v1/link/tag''"
    by blast
  from doRequest_target_url [of "''search=amazon''" ?c "''/api/v1/link/list''" ?L "''GET''" None
         "Some []"] n m
  have b: "doRequest_url ?c ''/api/v1/link/list'' ''search=amazon''
             = BaseURL ?c @ ''/api/v1/link/list'' @ ''?'' @ ''search=amazon''"
    and c: "URL req = doRequest_url ?c ''/api/v1/link/list'' ''search=amazon''"
    by blast+
  from a b c s show ?thesis by (simp add: NewClient_def)
qed

subsection \<open>C5: one send\<close>

text \<open>
  Claim C5. A call of the dispatcher hands at most one request to the transport,
  whatever error it ends with; a call that ends without error has handed over exactly
  one; and when serializing the payload fails, the call returns that error and has
  handed over none.
\<close>

theorem doRequest_sends_once:
  "length (sent (doRequest L c method path query body result)) \<le> 1
   \<and> (err (doRequest L c method path query body result) = None
        \<longrightarrow> length (sent (doRequest L c method path query body result)) = 1)
   \<and> (\<forall>b e. body = Some b \<and> json_Marshal L b = Inl e
        \<longrightarrow> err (doRequest L c method path query body result) = Some e
            \<and> sent (doRequest L c method path query body result) = [])"
  by (auto simp: doRequest_def doRequest_buf_def Let_def
           split: sum.splits option.splits prod.splits)

text \<open>
  A call that succeeds, and a call whose payload cannot be serialized (the marshaller of
  this run rejects every payload).
\<close>

theorem doRequest_sends_once_witness:
  "length (sent (doRequest (encoding_json Marshal_map (unmarshal_struct Tag_fields))
                   (NewClient (server 200 ''{}'') ''token'')
                   ''POST'' ''/api/v1/link/tag'' [] (Some [(''tag'', ''fall2024'')])
                   (Some Tag_zero))) = 1
   \<and> err (doRequest (encoding_json Marshal_map (unmarshal_struct Tag_fields))
                   (NewClient (server 200 ''{}'') ''token'')
                   ''POST'' ''/api/v1/link/tag'' [] (Some [(''tag'', ''fall2024'')])
                   (Some Tag_zero)) = None
   \<and> sent (doRequest
              (encoding_json (\<lambda>b. Inl (errorString ''json: unsupported value''))
                 (unmarshal_struct Tag_fields))
              (NewClient (server 200 ''{}'') ''token'')
              ''POST'' ''/api/v1/link/tag'' [] (Some [(''tag'', ''fall2024'')]) (Some Tag_zero))
     = []
   \<and> err (doRequest
              (encoding_json (\<lambda>b. Inl (errorString ''json: unsupported value''))
                 (unmarshal_struct Tag_fields))
              (NewClient (server 200 ''{}'') ''token'')
              ''POST'' ''/api/v1/link/tag'' [] (Some [(''tag'', ''fall2024'')]) (Some Tag_zero))
     = Some (errorString ''json: unsupported value'')"
proof -
  let ?L = "encoding_json Marshal_map (unmarshal_struct Tag_fields)
              :: ((string \<times> string) list, Tag) lib"
  let ?M = "encoding_json (\<lambda>b. Inl (errorString ''json: unsupported value''))
              (unmarshal_struct Tag_fields) :: ((string \<times> string) list, Tag) lib"
  let ?c = "NewClient (server 200 ''{}'') ''token''"
  let ?b = "Some [(''tag'', ''fall2024'')]"
  have e: "err (doRequest ?L ?c ''POST'' ''/api/v1/link/tag'' [] ?b (Some Tag_zero)) = None"
    by code_simp
  have f: "?b = Some [(''tag'', ''fall2024'')]
           \<and> json_Marshal ?M [(''tag'', ''fall2024'')] = Inl (errorString ''json: unsupported value'')"
    by (simp add: encoding_json_def)
  from doRequest_sends_once [of ?L ?c "''POST''" "''/api/v1/link/tag''" "[]" ?b "Some Tag_zero"] e
  have 1: "length (sent (doRequest ?L ?c ''POST'' ''/api/v1/link/tag'' [] ?b (Some Tag_zero))) = 1"
    by blast
  from doRequest_sends_once [of ?M ?c "''POST''" "''/api/v1/link/tag''" "[]" ?b "Some Tag_zero"] f
  have 2: "err (doRequest ?M ?c ''POST'' ''/api/v1/link/tag'' [] ?b (Some Tag_zero))
             = Some (errorString ''json: unsupported value'')
           \<and> sent (doRequest ?M ?c ''POST'' ''/api/v1/link/tag'' [] ?b (Some Tag_zero)) = []"
    by blast
  from 1 2 e show ?thesis by simp
qed

subsection \<open>C6: the delete methods\<close>

text \<open>
  Claim C6, as amended. \<^verbatim>\<open>DeletePixel\<close> and \<^verbatim>\<open>DeleteTag\<close> send their request with an
  empty body; \<^verbatim>\<open>DeleteShortLink\<close> sends as body the serialized map with the one entry
  \<^verbatim>\<open>short_url\<close>. Each of the three returns no error when the transport answers with a
  status code in [200, 300).
\<close>

theorem delete_operations:
  "(\<forall>req \<in> set (sent (DeletePixel L c i)). ReqBody req = [])
   \<and> (\<forall>req \<in> set (sent (DeleteTag L c i)). ReqBody req = [])
   \<and> (\<forall>req \<in> set (sent (DeleteShortLink L' c shortURL)).
          json_Marshal L' [(''short_url'', shortURL)] = Inr (ReqBody req))
   \<and> (\<forall>req resp. sent (DeletePixel L c i) = [req] \<and> Client c req = Inr resp
          \<and> 200 \<le> StatusCode resp \<and> StatusCode resp < 300
        \<longrightarrow> err (DeletePixel L c i) = None)
   \<and> (\<forall>req resp. sent (DeleteTag L c i) = [req] \<and> Client c req = Inr resp
          \<and> 200 \<le> StatusCode resp \<and> StatusCode resp < 300
        \<longrightarrow> err (DeleteTag L c i) = None)
   \<and> (\<forall>req resp. sent (DeleteShortLink L' c shortURL) = [req] \<and> Client c req = Inr resp
          \<and> 200 \<le> StatusCode resp \<and> StatusCode resp < 300
        \<longrightarrow> err (DeleteShortLink L' c shortURL) = None)"
proof (intro conjI ballI allI impI)
  fix req assume "req \<in> set (sent (DeletePixel L c i))"
  then have "req \<in> set (sent (doRequest L c ''DELETE'' (''/api/v1/link/pixel/'' @ Sprintf_d i) [] None None))"
    by (simp add: DeletePixel_def Let_def)
  from doRequest_sent_ReqBody [OF this] show "ReqBody req = []"
    by (simp add: doRequest_buf_def)
next
  fix req assume "req \<in> set (sent (DeleteTag L c i))"
  then have "req \<in> set (sent (doRequest L c ''DELETE'' (''/api/v1/link/tag/'' @ Sprintf_d i) [] None None))"
    by (simp add: DeleteTag_def Let_def)
  from doRequest_sent_ReqBody [OF this] show "ReqBody req = []"
    by (simp add: doRequest_buf_def)
next
  fix req assume "req \<in> set (sent (DeleteShortLink L' c shortURL))"
  then have "req \<in> set (sent (doRequest L' c ''DELETE'' ''/api/v1/link'' []
                              (Some [(''short_url'', shortURL)]) None))"
    by (simp add: DeleteShortLink_def Let_def)
  from doRequest_sent_ReqBody [OF this]
  show "json_Marshal L' [(''short_url'', shortURL)] = Inr (ReqBody req)"
    by (simp add: doRequest_buf_def split: sum.splits)
next
  fix req resp
  assume "sent (DeletePixel L c i) = [req] \<and> Client c req = Inr resp
          \<and> 200 \<le> StatusCode resp \<and> StatusCode resp < 300"
  then have "sent (doRequest L c ''DELETE'' (''/api/v1/link/pixel/'' @ Sprintf_d i) [] None None) = [req]"
    and r: "Client c req = Inr resp" "200 \<le> StatusCode resp" "StatusCode resp < 300"
    by (simp_all add: DeletePixel_def Let_def)
  from doRequest_no_slot_success [OF this] show "err (DeletePixel L c i) = None"
    by (simp add: DeletePixel_def Let_def)
next
  fix req resp
  assume "sent (DeleteTag L c i) = [req] \<and> Client c req = Inr resp
          \<and> 200 \<le> StatusCode resp \<and> StatusCode resp < 300"
  then have "sent (doRequest L c ''DELETE'' (''/api/v1/link/tag/'' @ Sprintf_d i) [] None None) = [req]"
    and r: "Client c req = Inr resp" "200 \<le> StatusCode resp" "StatusCode resp < 300"
    by (simp_all add: DeleteTag_def Let_def)
  from doRequest_no_slot_success [OF this] show "err (DeleteTag L c i) = None"
    by (simp add: DeleteTag_def Let_def)
next
  fix req resp
  assume "sent (DeleteShortLink L' c shortURL) = [req] \<and> Client c req = Inr resp
          \<and> 200 \<le> StatusCode resp \<and> StatusCode resp < 300"
  then have "sent (doRequest L' c ''DELETE'' ''/api/v1/link'' []
                              (Some [(''short_url'', shortURL)]) None) = [req]"
    and r: "Client c req = Inr resp" "200 \<le> StatusCode resp" "StatusCode resp < 300"
    by (simp_all add: DeleteShortLink_def Let_def)
  from doRequest_no_slot_success [OF this] show "err (DeleteShortLink L' c shortURL) = None"
    by (simp add: DeleteShortLink_def Let_def)
qed

theorem delete_operations_witness:
  \<open>map ReqBody (sent (DeletePixel (encoding_json Marshal_map unmarshal_string)
                        (NewClient (server 204 []) ''token'') 45)) = [[]]
   \<and> map ReqBody (sent (DeleteTag (encoding_json Marshal_map unmarshal_string)
                        (NewClient (server 204 []) ''token'') 5)) = [[]]
   \<and> map (\<lambda>req. Inr (ReqBody req))
        (sent (DeleteShortLink (encoding_json Marshal_map unmarshal_string)
                 (NewClient (server 204 []) ''token'') ''https://t.ly/c55j''))
      = [Marshal_map [(''short_url'', ''https://t.ly/c55j'')]]
   \<and> err (DeletePixel (encoding_json Marshal_map unmarshal_string)
            (NewClient (server 204 []) ''token'') 45) = None
   \<and> err (DeleteTag (encoding_json Marshal_map unmarshal_string)
            (NewClient (server 204 []) ''token'') 5) = None
   \<and> err (DeleteShortLink (encoding_json Marshal_map unmarshal_string)
            (NewClient (server 204 []) ''token'') ''https://t.ly/c55j'') = None\<close>
proof -
  let ?L = "encoding_json Marshal_map unmarshal_string :: ((string \<times> string) list, string) lib"
  let ?c = "NewClient (server 204 []) ''token''"
  let ?resp = "\<lparr>StatusCode = 204, Body = \<lparr>delivered = [], read_error = None\<rparr>\<rparr>"
  note inst = delete_operations [of ?L ?c 45 ?L "''https://t.ly/c55j''"]
  note inst' = delete_operations [of ?L ?c 5 ?L "''https://t.ly/c55j''"]
  have t: "Client ?c req = Inr ?resp" for req
    by (simp add: NewClient_def server_def)
  have "length (sent (DeletePixel ?L ?c 45)) = 1" by code_simp
  then obtain r1 where s1: "sent (DeletePixel ?L ?c 45) = [r1]"
    by (cases "sent (DeletePixel ?L ?c 45)") auto
  have "length (sent (DeleteTag ?L ?c 5)) = 1" by code_simp
  then obtain r2 where s2: "sent (DeleteTag ?L ?c 5) = [r2]"
    by (cases "sent (DeleteTag ?L ?c 5)") auto
  have "length (sent (DeleteShortLink ?L ?c ''https://t.ly/c55j'')) = 1" by code_simp
  then obtain r3 where s3: "sent (DeleteShortLink ?L ?c ''https://t.ly/c55j'') = [r3]"
    by (cases "sent (DeleteShortLink ?L ?c ''https://t.ly/c55j'')") auto
  from inst s1 have b1: "ReqBody r1 = []" by simp
  from inst' s2 have b2: "ReqBody r2 = []" by simp
  from inst s3 have b3: "json_Marshal ?L [(''short_url'', ''https://t.ly/c55j'')] = Inr (ReqBody r3)"
    by simp
  from inst s1 t [of r1] have e1: "err (DeletePixel ?L ?c 45) = None" by simp
  from inst' s2 t [of r2] have e2: "err (DeleteTag ?L ?c 5) = None" by simp
  from inst s3 t [of r3] have e3: "err (DeleteShortLink ?L ?c ''https://t.ly/c55j'') = None" by simp
  from b3 have b3': "Marshal_map [(''short_url'', ''https://t.ly/c55j'')] = Inr (ReqBody r3)"
    by (simp add: encoding_json_def)
  show ?thesis
    unfolding s1 s2 s3 using b1 b2 b3' e1 e2 e3 unfolding s1 s2 s3 by simp
qed

text \<open>
  As stated, the claim says that \<^verbatim>\<open>DeleteShortLink\<close> sends an empty body. It sends the
  serialized map.
\<close>

theorem DeleteShortLink_body_counterexample:
  \<open>map ReqBody (sent (DeleteShortLink (encoding_json Marshal_map unmarshal_string)
                        (NewClient (server 200 []) ''token'') ''https://t.ly/c55j''))
     = [''{"short_url":"https://t.ly/c55j"}'']
   \<and> map ReqBody (sent (DeleteShortLink (encoding_json Marshal_map unmarshal_string)
                        (NewClient (server 200 []) ''token'') ''https://t.ly/c55j''))
     \<noteq> [[]]\<close>
  by code_simp

subsection \<open>C7: listing and bulk shortening\<close>

text \<open>
  Claim C7. \<^verbatim>\<open>ListShortLinks\<close> with the one filter \<^verbatim>\<open>search\<close> = \<^verbatim>\<open>amazon\<close> asks for
  \<^verbatim>\<open>/api/v1/link/list?search=amazon\<close>. For any filters, in whatever order the loop
  visits them, the query is the entries written \<^verbatim>\<open>key=value\<close> and joined by \<^verbatim>\<open>&\<close>, so
  it contains \<^verbatim>\<open>key=value\<close> for every entry. \<^verbatim>\<open>ListShortLinks\<close> and
  \<^verbatim>\<open>BulkShortenLinks\<close> return, on a status code in [200, 300), the string the decoder
  stored in their string variable, as it is.
\<close>

theorem list_and_bulk_results:
  "(\<forall>req \<in> set (sent (ListShortLinks L c [(''search'', ''amazon'')])).
      URL req = BaseURL c @ ''/api/v1/link/list'' @ ''?'' @ ''search=amazon'')
   \<and> (\<forall>req \<in> set (sent (ListShortLinks L c queryParams)).
        URL req = doRequest_url c ''/api/v1/link/list''
                    (join ''&'' (map (\<lambda>(k, v). k @ ''='' @ v) queryParams))
        \<and> (\<forall>k v. (k, v) \<in> set queryParams
             \<longrightarrow> (\<exists>pre post. URL req = BaseURL c @ ''/api/v1/link/list'' @ ''?''
                                        @ pre @ (k @ ''='' @ v) @ post)))
   \<and> (\<forall>req resp s.
        sent (ListShortLinks L c queryParams) = [req] \<and> Client c req = Inr resp
        \<and> 200 \<le> StatusCode resp \<and> StatusCode resp < 300
        \<and> json_Decode L (Body resp) [] = (None, s)
        \<longrightarrow> ret (ListShortLinks L c queryParams) = s
            \<and> err (ListShortLinks L c queryParams) = None)
   \<and> (\<forall>req resp s.
        sent (BulkShortenLinks L' c reqData) = [req] \<and> Client c req = Inr resp
        \<and> 200 \<le> StatusCode resp \<and> StatusCode resp < 300
        \<and> json_Decode L' (Body resp) [] = (None, s)
        \<longrightarrow> ret (BulkShortenLinks L' c reqData) = s
            \<and> err (BulkShortenLinks L' c reqData) = None)"
proof (intro conjI ballI allI impI)
  fix req assume "req \<in> set (sent (ListShortLinks L c [(''search'', ''amazon'')]))"
  from ListShortLinks_sent_URL [OF this]
  show "URL req = BaseURL c @ ''/api/v1/link/list'' @ ''?'' @ ''search=amazon''"
    by (simp add: doRequest_url_cases)
next
  fix req assume "req \<in> set (sent (ListShortLinks L c queryParams))"
  from ListShortLinks_sent_URL [OF this]
  show "URL req = doRequest_url c ''/api/v1/link/list''
                    (join ''&'' (map (\<lambda>(k, v). k @ ''='' @ v) queryParams))" .
next
  fix req k v
  assume r: "req \<in> set (sent (ListShortLinks L c queryParams))"
    and kv: "(k, v) \<in> set queryParams"
  let ?q = "join ''&'' (map (\<lambda>(k, v). k @ ''='' @ v) queryParams)"
  from kv have "k @ ''='' @ v \<in> set (map (\<lambda>(k, v). k @ ''='' @ v) queryParams)"
    by force
  from join_contains [OF this, of "''&''"] obtain pre post where
    q: "?q = pre @ (k @ ''='' @ v) @ post" by blast
  then have "?q \<noteq> []" by simp
  with ListShortLinks_sent_URL [OF r]
  have "URL req = BaseURL c @ ''/api/v1/link/list'' @ ''?'' @ ?q"
    by (simp add: doRequest_url_cases)
  with q show "\<exists>pre post. URL req = BaseURL c @ ''/api/v1/link/list'' @ ''?''
                                        @ pre @ (k @ ''='' @ v) @ post"
    by metis
next
  fix req resp s
  assume "sent (ListShortLinks L c queryParams) = [req] \<and> Client c req = Inr resp
        \<and> 200 \<le> StatusCode resp \<and> StatusCode resp < 300
        \<and> json_Decode L (Body resp) [] = (None, s)"
  then show "ret (ListShortLinks L c queryParams) = s"
    and "err (ListShortLinks L c queryParams) = None"
    using ListShortLinks_returns_decoded by blast+
next
  fix req resp s
  assume "sent (BulkShortenLinks L' c reqData) = [req] \<and> Client c req = Inr resp
        \<and> 200 \<le> StatusCode resp \<and> StatusCode resp < 300
        \<and> json_Decode L' (Body resp) [] = (None, s)"
  then show "ret (BulkShortenLinks L' c reqData) = s"
    and "err (BulkShortenLinks L' c reqData) = None"
    using BulkShortenLinks_returns_decoded by blast+
qed

text \<open>
  The body of the answer is a JSON string; what the methods return is its content, here
  the text of an array, which the caller has yet to decode.
\<close>

theorem list_and_bulk_results_witness:
  \<open>map URL (sent (ListShortLinks (encoding_json Marshal_map unmarshal_string)
                    (NewClient (server 200 ''"[1,2]"'') ''token'') [(''search'', ''amazon'')]))
     = [''https://api.t.ly/api/v1/link/list?search=amazon'']
   \<and> ret (ListShortLinks (encoding_json Marshal_map unmarshal_string)
            (NewClient (server 200 ''"[1,2]"'') ''token'') [(''search'', ''amazon'')])
     = ''[1,2]''
   \<and> err (ListShortLinks (encoding_json Marshal_map unmarshal_string)
            (NewClient (server 200 ''"[1,2]"'') ''token'') [(''search'', ''amazon'')])
     = None
   \<and> ret (BulkShortenLinks (encoding_json Marshal_BulkShortenRequest unmarshal_string)
            (NewClient (server 200 ''"[1,2]"'') ''token'')
            \<lparr>BulkShortenRequest_Domain = ''https://t.ly/'',
             BulkShortenRequest_Links = Some [''http://example1.com'', ''http://example2.com''],
             BulkShortenRequest_Tags = None, BulkShortenRequest_Pixels = None\<rparr>)
     = ''[1,2]''
   \<and> err (BulkShortenLinks (encoding_json Marshal_BulkShortenRequest unmarshal_string)
            (NewClient (server 200 ''"[1,2]"'') ''token'')
            \<lparr>BulkShortenRequest_Domain = ''https://t.ly/'',
             BulkShortenRequest_Links = Some [''http://example1.com'', ''http://example2.com''],
             BulkShortenRequest_Tags = None, BulkShortenRequest_Pixels = None\<rparr>)
     = None\<close>
proof -
  let ?L = "encoding_json Marshal_map unmarshal_string :: ((string \<times> string) list, string) lib"
  let ?M = "encoding_json Marshal_BulkShortenRequest unmarshal_string"
  let ?c = \<open>NewClient (server 200 ''"[1,2]"'') ''token''\<close>
  let ?body = \<open>\<lparr>delivered = ''"[1,2]"'', read_error = None\<rparr>\<close>
  let ?resp = "\<lparr>StatusCode = 200, Body = ?body\<rparr>"
  let ?q = "[(''search'', ''amazon'')]"
  let ?b = "\<lparr>BulkShortenRequest_Domain = ''https://t.ly/'',
             BulkShortenRequest_Links = Some [''http://example1.com'', ''http://example2.com''],
             BulkShortenRequest_Tags = None, BulkShortenRequest_Pixels = None\<rparr>"
  note inst = list_and_bulk_results [of ?L ?c ?q ?M ?b]
  have t: "Client ?c req = Inr ?resp" for req
    by (simp add: NewClient_def server_def)
  have d1: "json_Decode ?L ?body [] = (None, ''[1,2]'')" by code_simp
  have d2: "json_Decode ?M ?body [] = (None, ''[1,2]'')" by code_simp
  have "length (sent (ListShortLinks ?L ?c ?q)) = 1" by code_simp
  then obtain r1 where s1: "sent (ListShortLinks ?L ?c ?q) = [r1]"
    by (cases "sent (ListShortLinks ?L ?c ?q)") auto
  have "length (sent (BulkShortenLinks ?M ?c ?b)) = 1" by code_simp
  then obtain r2 where s2: "sent (BulkShortenLinks ?M ?c ?b) = [r2]"
    by (cases "sent (BulkShortenLinks ?M ?c ?b)") auto
  note i1 = inst [THEN conjunct1, rule_format]
  note i3 = inst [THEN conjunct2, THEN conjunct2, THEN conjunct1, rule_format]
  note i4 = inst [THEN conjunct2, THEN conjunct2, THEN conjunct2, rule_format]
  from s1 have "r1 \<in> set (sent (ListShortLinks ?L ?c ?q))" by simp
  from i1 [OF this]
  have u: "URL r1 = BaseURL ?c @ ''/api/v1/link/list'' @ ''?'' @ ''search=amazon''" .
  from s1 t [of r1] d1
  have "sent (ListShortLinks ?L ?c ?q) = [r1] \<and> Client ?c r1 = Inr ?resp
        \<and> 200 \<le> StatusCode ?resp \<and> StatusCode ?resp < 300
        \<and> json_Decode ?L (Body ?resp) [] = (None, ''[1,2]'')"
    by simp
  from i3 [OF this]
  have l: "ret (ListShortLinks ?L ?c ?q) = ''[1,2]'' \<and> err (ListShortLinks ?L ?c ?q) = None" .
  from s2 t [of r2] d2
  have "sent (BulkShortenLinks ?M ?c ?b) = [r2] \<and> Client ?c r2 = Inr ?resp
        \<and> 200 \<le> StatusCode ?resp \<and> StatusCode ?resp < 300
        \<and> json_Decode ?M (Body ?resp) [] = (None, ''[1,2]'')"
    by simp
  from i4 [OF this]
  have b: "ret (BulkShortenLinks ?M ?c ?b) = ''[1,2]'' \<and> err (BulkShortenLinks ?M ?c ?b) = None" .
  show ?thesis unfolding s1 using u l b unfolding s1 by (simp add: NewClient_def)
qed

subsection \<open>C8: the short url in the query\<close>

text \<open>
  Claim C8. For every \<^verbatim>\<open>shortURL\<close>, \<^verbatim>\<open>GetShortLink\<close> and \<^verbatim>\<open>GetStats\<close> call the
  dispatcher with the query \<^verbatim>\<open>short_url=\<close> followed by \<^verbatim>\<open>shortURL\<close> byte for byte, and
  the request is built from the base address, the path, a question mark and that query,
  unchanged. Neither the methods nor the dispatcher check or change the value: whenever
  \<^verbatim>\<open>http.NewRequest\<close> of the library accepts that very url, the request goes out with
  it, and the only refusal is the library's, whose error is returned with nothing sent.
\<close>

theorem short_url_query_verbatim:
  "sent (GetShortLink L c shortURL)
     = sent (doRequest L c ''GET'' ''/api/v1/link'' (''short_url='' @ shortURL) None
               (Some ShortLink_zero))
   \<and> sent (GetStats L' c shortURL)
     = sent (doRequest L' c ''GET'' ''/api/v1/link/stats'' (''short_url='' @ shortURL) None
               (Some Stats_zero))
   \<and> (\<forall>req \<in> set (sent (GetShortLink L c shortURL)).
        URL req = BaseURL c @ ''/api/v1/link'' @ ''?'' @ ''short_url='' @ shortURL)
   \<and> (\<forall>req \<in> set (sent (GetStats L' c shortURL)).
        URL req = BaseURL c @ ''/api/v1/link/stats'' @ ''?'' @ ''short_url='' @ shortURL)
   \<and> (NewRequest_error L ''GET''
         (BaseURL c @ ''/api/v1/link'' @ ''?'' @ ''short_url='' @ shortURL) = None
       \<longrightarrow> (\<exists>req. sent (GetShortLink L c shortURL) = [req]
                 \<and> URL req = BaseURL c @ ''/api/v1/link'' @ ''?'' @ ''short_url='' @ shortURL))
   \<and> (NewRequest_error L' ''GET''
         (BaseURL c @ ''/api/v1/link/stats'' @ ''?'' @ ''short_url='' @ shortURL) = None
       \<longrightarrow> (\<exists>req. sent (GetStats L' c shortURL) = [req]
                 \<and> URL req
                     = BaseURL c @ ''/api/v1/link/stats'' @ ''?'' @ ''short_url='' @ shortURL))
   \<and> (\<forall>e. NewRequest_error L ''GET''
              (BaseURL c @ ''/api/v1/link'' @ ''?'' @ ''short_url='' @ shortURL) = Some e
         \<longrightarrow> sent (GetShortLink L c shortURL) = []
             \<and> err (GetShortLink L c shortURL) = Some e)
   \<and> (\<forall>e. NewRequest_error L' ''GET''
              (BaseURL c @ ''/api/v1/link/stats'' @ ''?'' @ ''short_url='' @ shortURL) = Some e
         \<longrightarrow> sent (GetStats L' c shortURL) = []
             \<and> err (GetStats L' c shortURL) = Some e)"
proof (intro conjI ballI allI impI)
  show "sent (GetShortLink L c shortURL)
     = sent (doRequest L c ''GET'' ''/api/v1/link'' (''short_url='' @ shortURL) None
               (Some ShortLink_zero))"
    by (rule GetShortLink_sent)
  show "sent (GetStats L' c shortURL)
     = sent (doRequest L' c ''GET'' ''/api/v1/link/stats'' (''short_url='' @ shortURL) None
               (Some Stats_zero))"
    by (rule GetStats_sent)
  {
    fix req assume "req \<in> set (sent (GetShortLink L c shortURL))"
    then have "req \<in> set (sent (doRequest L c ''GET'' ''/api/v1/link''
                                   (''short_url='' @ shortURL) None (Some ShortLink_zero)))"
      by (simp only: GetShortLink_sent)
    from doRequest_sent_URL [OF this]
    show "URL req = BaseURL c @ ''/api/v1/link'' @ ''?'' @ ''short_url='' @ shortURL"
      by (simp only: short_url_target)
  }
  {
    fix req assume "req \<in> set (sent (GetStats L' c shortURL))"
    then have "req \<in> set (sent (doRequest L' c ''GET'' ''/api/v1/link/stats''
                                   (''short_url='' @ shortURL) None (Some Stats_zero)))"
      by (simp only: GetStats_sent)
    from doRequest_sent_URL [OF this]
    show "URL req = BaseURL c @ ''/api/v1/link/stats'' @ ''?'' @ ''short_url='' @ shortURL"
      by (simp only: short_url_target)
  }
  {
    assume "NewRequest_error L ''GET''
         (BaseURL c @ ''/api/v1/link'' @ ''?'' @ ''short_url='' @ shortURL) = None"
    then have "NewRequest_error L ''GET''
                 (doRequest_url c ''/api/v1/link'' (''short_url='' @ shortURL)) = None"
      by (simp only: short_url_target)
    from doRequest_no_payload_accepted [OF this, of "Some ShortLink_zero"]
    show "\<exists>req. sent (GetShortLink L c shortURL) = [req]
                 \<and> URL req = BaseURL c @ ''/api/v1/link'' @ ''?'' @ ''short_url='' @ shortURL"
      unfolding GetShortLink_sent short_url_target by blast
  }
  {
    assume "NewRequest_error L' ''GET''
         (BaseURL c @ ''/api/v1/link/stats'' @ ''?'' @ ''short_url='' @ shortURL) = None"
    then have "NewRequest_error L' ''GET''
                 (doRequest_url c ''/api/v1/link/stats'' (''short_url='' @ shortURL)) = None"
      by (simp only: short_url_target)
    from doRequest_no_payload_accepted [OF this, of "Some Stats_zero"]
    show "\<exists>req. sent (GetStats L' c shortURL) = [req]
                 \<and> URL req
                     = BaseURL c @ ''/api/v1/link/stats'' @ ''?'' @ ''short_url='' @ shortURL"
      unfolding GetStats_sent short_url_target by blast
  }
  {
    fix e
    assume "NewRequest_error L ''GET''
              (BaseURL c @ ''/api/v1/link'' @ ''?'' @ ''short_url='' @ shortURL) = Some e"
    then have "NewRequest_error L ''GET''
                 (doRequest_url c ''/api/v1/link'' (''short_url='' @ shortURL)) = Some e"
      by (simp only: short_url_target)
    from doRequest_no_payload_refused [OF this, of "Some ShortLink_zero"]
    show "sent (GetShortLink L c shortURL) = []" and "err (GetShortLink L c shortURL) = Some e"
      unfolding GetShortLink_sent GetShortLink_err by blast+
  }
  {
    fix e
    assume "NewRequest_error L' ''GET''
              (BaseURL c @ ''/api/v1/link/stats'' @ ''?'' @ ''short_url='' @ shortURL) = Some e"
    then have "NewRequest_error L' ''GET''
                 (doRequest_url c ''/api/v1/link/stats'' (''short_url='' @ shortURL)) = Some e"
      by (simp only: short_url_target)
    from doRequest_no_payload_refused [OF this, of "Some Stats_zero"]
    show "sent (GetStats L' c shortURL) = []" and "err (GetStats L' c shortURL) = Some e"
      unfolding GetStats_sent GetStats_err by blast+
  }
qed

text \<open>
  A short url with a space, an ampersand, an equals sign and a hash goes out as it is;
  a short url that is one line feed is refused by the library's check of the url.
\<close>

theorem short_url_query_verbatim_witness:
  "map URL (sent (GetShortLink (encoding_json Marshal_map (unmarshal_struct ShortLink_fields))
                    (NewClient (server 200 ''{}'') ''token'') ''https://t.ly/a b&c=d#e''))
     = [''https://api.t.ly/api/v1/link?short_url=https://t.ly/a b&c=d#e'']
   \<and> map URL (sent (GetStats (encoding_json Marshal_map (unmarshal_struct Stats_fields))
                    (NewClient (server 200 ''{}'') ''token'') ''https://t.ly/a b&c=d#e''))
     = [''https://api.t.ly/api/v1/link/stats?short_url=https://t.ly/a b&c=d#e'']
   \<and> sent (GetShortLink (encoding_json Marshal_map (unmarshal_struct ShortLink_fields))
            (NewClient (server 200 ''{}'') ''token'') [CHR 0x0A]) = []
   \<and> err (GetShortLink (encoding_json Marshal_map (unmarshal_struct ShortLink_fields))
            (NewClient (server 200 ''{}'') ''token'') [CHR 0x0A])
     = Some (errorString ''net/url: invalid control character in URL'')
   \<and> sent (GetStats (encoding_json Marshal_map (unmarshal_struct Stats_fields))
            (NewClient (server 200 ''{}'') ''token'') [CHR 0x0A]) = []
   \<and> err (GetStats (encoding_json Marshal_map (unmarshal_struct Stats_fields))
            (NewClient (server 200 ''{}'') ''token'') [CHR 0x0A])
     = Some (errorString ''net/url: invalid control character in URL'')"
proof -
  let ?L = "encoding_json Marshal_map (unmarshal_struct ShortLink_fields)
              :: ((string \<times> string) list, ShortLink) lib"
  let ?M = "encoding_json Marshal_map (unmarshal_struct Stats_fields)
              :: ((string \<times> string) list, Stats) lib"
  let ?c = "NewClient (server 200 ''{}'') ''token''"
  let ?u = "''https://t.ly/a b&c=d#e''"
  let ?v = "[CHR 0x0A]"
  let ?e = "errorString ''net/url: invalid control character in URL''"
  note ok = short_url_query_verbatim [of ?L ?c ?u ?M]
  note no = short_url_query_verbatim [of ?L ?c ?v ?M]
  have a1: "NewRequest_error ?L ''GET''
              (BaseURL ?c @ ''/api/v1/link'' @ ''?'' @ ''short_url='' @ ?u) = None"
    by code_simp
  have a2: "NewRequest_error ?M ''GET''
              (BaseURL ?c @ ''/api/v1/link/stats'' @ ''?'' @ ''short_url='' @ ?u) = None"
    by code_simp
  have r1: "NewRequest_error ?L ''GET''
              (BaseURL ?c @ ''/api/v1/link'' @ ''?'' @ ''short_url='' @ ?v) = Some ?e"
    by code_simp
  have r2: "NewRequest_error ?M ''GET''
              (BaseURL ?c @ ''/api/v1/link/stats'' @ ''?'' @ ''short_url='' @ ?v) = Some ?e"
    by code_simp
  note k5 = ok [THEN conjunct2, THEN conjunct2, THEN conjunct2, THEN conjunct2,
                THEN conjunct1, rule_format]
  note k6 = ok [THEN conjunct2, THEN conjunct2, THEN conjunct2, THEN conjunct2,
                THEN conjunct2, THEN conjunct1, rule_format]
  note n7 = no [THEN conjunct2, THEN conjunct2, THEN conjunct2, THEN conjunct2,
                THEN conjunct2, THEN conjunct2, THEN conjunct1, rule_format]
  note n8 = no [THEN conjunct2, THEN conjunct2, THEN conjunct2, THEN conjunct2,
                THEN conjunct2, THEN conjunct2, THEN conjunct2, rule_format]
  from k5 [OF a1] obtain q1 where
    s1: "sent (GetShortLink ?L ?c ?u) = [q1]"
    and u1: "URL q1 = BaseURL ?c @ ''/api/v1/link'' @ ''?'' @ ''short_url='' @ ?u"
    by blast
  from k6 [OF a2] obtain q2 where
    s2: "sent (GetStats ?M ?c ?u) = [q2]"
    and u2: "URL q2 = BaseURL ?c @ ''/api/v1/link/stats'' @ ''?'' @ ''short_url='' @ ?u"
    by blast
  from n7 [OF r1]
  have x1: "sent (GetShortLink ?L ?c ?v) = [] \<and> err (GetShortLink ?L ?c ?v) = Some ?e" .
  from n8 [OF r2]
  have x2: "sent (GetStats ?M ?c ?v) = [] \<and> err (GetStats ?M ?c ?v) = Some ?e" .
  show ?thesis unfolding s1 s2 using u1 u2 x1 x2 by (simp add: NewClient_def)
qed

subsection \<open>C9: the client is not changed\<close>

text \<open>
  Claim C9. \<^verbatim>\<open>NewClient\<close> stores the key, the fixed base address and the transport
  handle; the dispatcher and every public method leave the client as it was.
\<close>

theorem client_unchanged:
  "APIKey (NewClient h apiKey) = apiKey \<and> BaseURL (NewClient h apiKey) = ''https://api.t.ly''
   \<and> Client (NewClient h apiKey) = h
   \<and> self (doRequest L c method path query body result) = c
   \<and> self (CreatePixel L1 c pcr) = c \<and> self (ListPixels L2 c) = c
   \<and> self (GetPixel L3 c i) = c \<and> self (UpdatePixel L4 c pur) = c
   \<and> self (DeletePixel L5 c i) = c \<and> self (CreateShortLink L6 c scr) = c
   \<and> self (GetShortLink L7 c shortURL) = c \<and> self (UpdateShortLink L8 c sur) = c
   \<and> self (DeleteShortLink L9 c shortURL) = c \<and> self (ExpandShortLink L10 c er) = c
   \<and> self (ListShortLinks L11 c queryParams) = c \<and> self (BulkShortenLinks L12 c bsr) = c
   \<and> self (GetStats L13 c shortURL) = c \<and> self (ListTags L14 c) = c
   \<and> self (CreateTag L15 c tagValue) = c \<and> self (GetTag L16 c i) = c
   \<and> self (UpdateTag L17 c i tagValue) = c \<and> self (DeleteTag L18 c i) = c"
  unfolding CreatePixel_self ListPixels_self GetPixel_self UpdatePixel_self DeletePixel_self
    CreateShortLink_self GetShortLink_self UpdateShortLink_self DeleteShortLink_self
    ExpandShortLink_self ListShortLinks_self BulkShortenLinks_self GetStats_self
    ListTags_self CreateTag_self GetTag_self UpdateTag_self DeleteTag_self doRequest_self
  by (simp add: NewClient_def)

subsection \<open>C10: a result or an error\<close>

text \<open>
  Claim C10. Each of the eleven methods that return a pointer returns a non-nil pointer
  exactly when it returns a nil error; \<^verbatim>\<open>ListShortLinks\<close> and \<^verbatim>\<open>BulkShortenLinks\<close>
  return the empty string whenever they return an error.
\<close>

theorem result_xor_error:
  "(ret (CreatePixel L1 c pcr) \<noteq> None) = (err (CreatePixel L1 c pcr) = None)
   \<and> (ret (GetPixel L3 c i) \<noteq> None) = (err (GetPixel L3 c i) = None)
   \<and> (ret (UpdatePixel L4 c pur) \<noteq> None) = (err (UpdatePixel L4 c pur) = None)
   \<and> (ret (CreateShortLink L6 c scr) \<noteq> None) = (err (CreateShortLink L6 c scr) = None)
   \<and> (ret (GetShortLink L7 c shortURL) \<noteq> None) = (err (GetShortLink L7 c shortURL) = None)
   \<and> (ret (UpdateShortLink L8 c sur) \<noteq> None) = (err (UpdateShortLink L8 c sur) = None)
   \<and> (ret (ExpandShortLink L10 c er) \<noteq> None) = (err (ExpandShortLink L10 c er) = None)
   \<and> (ret (GetStats L13 c shortURL) \<noteq> None) = (err (GetStats L13 c shortURL) = None)
   \<and> (ret (CreateTag L15 c tagValue) \<noteq> None) = (err (CreateTag L15 c tagValue) = None)
   \<and> (ret (GetTag L16 c i) \<noteq> None) = (err (GetTag L16 c i) = None)
   \<and> (ret (UpdateTag L17 c i tagValue) \<noteq> None) = (err (UpdateTag L17 c i tagValue) = None)
   \<and> (err (ListShortLinks L11 c queryParams) \<noteq> None \<longrightarrow> ret (ListShortLinks L11 c queryParams) = [])
   \<and> (err (BulkShortenLinks L12 c bsr) \<noteq> None \<longrightarrow> ret (BulkShortenLinks L12 c bsr) = [])"
  using CreatePixel_ret_err [of L1 c pcr] GetPixel_ret_err [of L3 c i]
    UpdatePixel_ret_err [of L4 c pur] CreateShortLink_ret_err [of L6 c scr]
    GetShortLink_ret_err [of L7 c shortURL] UpdateShortLink_ret_err [of L8 c sur]
    ExpandShortLink_ret_err [of L10 c er] GetStats_ret_err [of L13 c shortURL]
    CreateTag_ret_err [of L15 c tagValue] GetTag_ret_err [of L16 c i]
    UpdateTag_ret_err [of L17 c i tagValue]
    ListShortLinks_ret_err [of L11 c queryParams] BulkShortenLinks_ret_err [of L12 c bsr]
  by blast

theorem result_xor_error_witness:
  "err (ListShortLinks (encoding_json Marshal_map unmarshal_string)
          (NewClient (server 500 ''Server Error'') ''token'') [])
     = Some (errorString ''API error: Server Error'')
   \<and> ret (ListShortLinks (encoding_json Marshal_map unmarshal_string)
          (NewClient (server 500 ''Server Error'') ''token'') []) = []
   \<and> err (BulkShortenLinks (encoding_json Marshal_BulkShortenRequest unmarshal_string)
            (NewClient (unreachable (errorString ''dial tcp: connection refused'')) ''token'')
            \<lparr>BulkShortenRequest_Domain = ''https://t.ly/'',
             BulkShortenRequest_Links = Some [''http://example1.com''],
             BulkShortenRequest_Tags = None, BulkShortenRequest_Pixels = None\<rparr>)
     = Some (errorString ''dial tcp: connection refused'')
   \<and> ret (BulkShortenLinks (encoding_json Marshal_BulkShortenRequest unmarshal_string)
            (NewClient (unreachable (errorString ''dial tcp: connection refused'')) ''token'')
            \<lparr>BulkShortenRequest_Domain = ''https://t.ly/'',
             BulkShortenRequest_Links = Some [''http://example1.com''],
             BulkShortenRequest_Tags = None, BulkShortenRequest_Pixels = None\<rparr>) = []"
proof -
  let ?L = "encoding_json Marshal_map unmarshal_string :: ((string \<times> string) list, string) lib"
  let ?M = "encoding_json Marshal_BulkShortenRequest unmarshal_string"
  let ?c = "NewClient (server 500 ''Server Error'') ''token''"
  let ?d = "NewClient (unreachable (errorString ''dial tcp: connection refused'')) ''token''"
  let ?b = "\<lparr>BulkShortenRequest_Domain = ''https://t.ly/'',
             BulkShortenRequest_Links = Some [''http://example1.com''],
             BulkShortenRequest_Tags = None, BulkShortenRequest_Pixels = None\<rparr>"
  have e1: "err (ListShortLinks ?L ?c []) = Some (errorString ''API error: Server Error'')"
    by code_simp
  have e2: "err (BulkShortenLinks ?M ?d ?b) = Some (errorString ''dial tcp: connection refused'')"
    by code_simp
  note l = result_xor_error
    [THEN conjunct2, THEN conjunct2, THEN conjunct2, THEN conjunct2, THEN conjunct2, THEN conjunct2, THEN conjunct2, THEN conjunct2, THEN conjunct2, THEN conjunct2, THEN conjunct2,
     THEN conjunct1, rule_format]
  note b = result_xor_error
    [THEN conjunct2, THEN conjunct2, THEN conjunct2, THEN conjunct2, THEN conjunct2, THEN conjunct2, THEN conjunct2, THEN conjunct2, THEN conjunct2, THEN conjunct2, THEN conjunct2,
     THEN conjunct2, rule_format]
  from e1 have "err (ListShortLinks ?L ?c []) \<noteq> None" by simp
  from l [OF this] have "ret (ListShortLinks ?L ?c []) = []" .
  moreover
  from e2 have "err (BulkShortenLinks ?M ?d ?b) \<noteq> None" by simp
  from b [OF this] have "ret (BulkShortenLinks ?M ?d ?b) = []" .
  ultimately show ?thesis using e1 e2 by simp
qed

end
